theory Spec2Isabelle
  imports Main "HOL-Library.Word"
begin

unbundle bit_operations_syntax

section \<open>Data model\<close>

text \<open>
  The Go sources use \<open>uint64\<close> for group, peer and node identifiers, log indices and
  terms, and \<open>[]byte\<close> for keys, values, signatures and command results. A nil byte
  slice and an empty one are both the empty list.
\<close>

type_synonym u64 = "64 word"
type_synonym byte = "8 word"
type_synonym bytes = "byte list"

text \<open>
  The protobuf messages of packages \<open>pb\<close> and \<open>spb\<close>, with the fields the sources
  read or write. Their declarations are generated code outside the sources at hand; the
  field lists follow the data model of the specification (section 3).
\<close>

record LogEntry =
  Term :: u64
  Index :: u64
  Command :: bytes

record Peer =
  Peer_Id :: u64
  Peer_Host :: u64
  NextIndex :: u64

record RaftGroup =
  Group_Id :: u64
  Group_Term :: u64

record Host =
  Host_Id :: u64
  ServerAddr :: string
  PublicKey :: bytes

datatype RequestVoteResponse = RequestVoteResponse bytes

record AppendEntriesRequest =
  Req_Group :: u64
  Req_Term :: u64
  LeaderId :: u64
  PrevLogIndex :: u64
  PrevLogTerm :: u64
  Signature :: bytes
  QuorumVotes :: "RequestVoteResponse list"
  Entries :: "LogEntry list"

record CommandRequest =
  Cmd_Group :: u64
  ClientId :: u64
  RequestId :: u64
  FuncId :: u64
  Arg :: bytes
  Cmd_Signature :: bytes

text \<open>
  A Go function that can panic returns an \<open>outcome\<close>: \<open>Panic\<close> stands for the runtime
  panic (nil dereference, failed type assertion, negative wait-group counter).
\<close>

datatype 'a outcome = Panic | Returns 'a

section \<open>Cache keys\<close>

text \<open>
  \<open>strconv.Itoa(int(group))\<close> prints the 64-bit value read as a signed integer in
  decimal; \<open>fmt.Sprint(group, "-", peer_id)\<close> prints both unsigned operands in
  decimal around the string operand, with no space added next to a string.
\<close>

function dec :: "nat \<Rightarrow> string" where
  "dec n = (if n < 10 then [''0123456789'' ! n]
            else dec (n div 10) @ [''0123456789'' ! (n mod 10)])"
  by pat_completeness auto
termination
  by (relation "measure id") auto

declare dec.simps [simp del]

definition Itoa :: "int \<Rightarrow> string" where
  "Itoa i = (if i < 0 then CHR ''-'' # dec (nat (- i)) else dec (nat i))"

definition Sprint_peer_key :: "u64 \<Rightarrow> u64 \<Rightarrow> string" where
  "Sprint_peer_key grp peer_id = dec (unat grp) @ ''-'' @ dec (unat peer_id)"

section \<open>Key codec and key-value store\<close>

text \<open>
  Modelled from the spec: \<open>U64Bytes\<close> (package utils, not among the sources at hand).
  Section 4.2 of the specification: \<open>u64Bytes(x)\<close> encodes a 64-bit unsigned integer
  in a fixed-width, order-preserving form, so that bytewise iteration yields numeric
  order: eight bytes, most significant first.
\<close>

definition U64Bytes :: "u64 \<Rightarrow> bytes" where
  "U64Bytes x = map (\<lambda>i. ucast (drop_bit (8 * (7 - i)) x)) [0 ..< 8]"

text \<open>
  Modelled from the spec: \<open>BytesU64\<close> (package utils, not among the sources at hand).
  Section 4.2 of the specification: \<open>bytesU64(buf, offset)\<close> is the inverse of
  \<open>u64Bytes\<close>, reading at \<open>offset\<close>. Reading eight bytes beyond the end of a Go
  slice panics; the result is \<open>None\<close> there.
\<close>

definition BytesU64 :: "bytes \<Rightarrow> nat \<Rightarrow> u64 option" where
  "BytesU64 buf offset =
     (if offset + 8 \<le> length buf
      then Some (foldl (\<lambda>acc b. push_bit 8 acc OR ucast b) 0 (take 8 (drop offset buf)))
      else None)"

text \<open>
  Modelled from the spec: \<open>ComposeKeyPrefix\<close> (package utils, not among the sources at
  hand). Section 6 of the specification: keys are composed as
  \<open>u64Bytes(group) ++ u8(tableTag) ++ \<dots>\<close>.
\<close>

definition ComposeKeyPrefix :: "u64 \<Rightarrow> byte \<Rightarrow> bytes" where
  "ComposeKeyPrefix grp tableTag = U64Bytes grp @ [tableTag]"

text \<open>
  The badger store is the list of its rows in ascending bytewise key order, as its
  iterator visits them. An iterator is the list of the rows from its position on:
  \<open>Seek\<close> moves to the first row whose key is not below the target,
  \<open>ValidForPrefix\<close> tests the key of the row under the iterator, \<open>Item().Key()\<close> is
  \<open>fst (hd iter)\<close>.
\<close>

type_synonym KV = "(bytes \<times> bytes) list"

fun bytes_less :: "bytes \<Rightarrow> bytes \<Rightarrow> bool" where
  "bytes_less [] [] = False"
| "bytes_less [] (y # ys) = True"
| "bytes_less (x # xs) [] = False"
| "bytes_less (x # xs) (y # ys) = (x < y \<or> (x = y \<and> bytes_less xs ys))"

definition Seek :: "KV \<Rightarrow> bytes \<Rightarrow> KV" where
  "Seek db target = dropWhile (\<lambda>row. bytes_less (fst row) target) db"

definition ValidForPrefix :: "KV \<Rightarrow> bytes \<Rightarrow> bool" where
  "ValidForPrefix iter keyPrefix =
     (case iter of [] \<Rightarrow> False | row # _ \<Rightarrow> take (length keyPrefix) (fst row) = keyPrefix)"

text \<open>
  Modelled from the spec: \<open>ItemValue\<close> (package server, not among the sources at hand)
  applied to the item that \<open>DB.Get\<close> filled. Section 4.3 and section 6 of the
  specification: the point read yields the value of the row, and absent (Go: nil) when
  the row is absent.
\<close>

definition DB_Get :: "KV \<Rightarrow> bytes \<Rightarrow> bytes option" where
  "DB_Get db dbKey = map_of db dbKey"

section \<open>Server state and environment\<close>

text \<open>
  A handle from the cluster client pool; \<open>rpc\<close> names the server its stub talks to.
\<close>

record Client =
  rpc :: string

text \<open>
  \<open>BFTRaftServer\<close> with the fields the functions below use. The two caches hold the
  entries that are present and not expired. A cached peer list holds pointers, any of
  which can be nil.
\<close>

record BFTRaftServer =
  Id :: u64
  DB :: KV
  GroupsPeers :: "string \<rightharpoonup> Peer option list"
  Peers :: "string \<rightharpoonup> Peer"

text \<open>
  What the server functions call and the sources at hand do not contain: the table tag
  \<open>GROUP_PEERS\<close>; \<open>proto.Unmarshal\<close> on a Peer (the message as the call leaves it,
  and whether it returned an error, which \<open>GetPeer\<close> does not look at);
  \<open>ReversedLogIterator\<close> (the entries it yields, per group); \<open>GetNode\<close>;
  \<open>ClusterClients.Get\<close> (Go's pair of a client pointer and an error, either of which
  can be nil); \<open>AppendLogEntrySignData\<close> and the server's \<open>Sign\<close>.
\<close>

record server_env =
  GROUP_PEERS :: byte
  Unmarshal :: "bytes \<Rightarrow> Peer \<times> bool"
  ReversedLogIterator :: "u64 \<Rightarrow> LogEntry list"
  GetNode :: "u64 \<Rightarrow> Host option"
  ClusterClients_Get :: "string \<Rightarrow> Client option \<times> string option"
  AppendLogEntrySignData :: "u64 \<Rightarrow> u64 \<Rightarrow> u64 \<Rightarrow> u64 \<Rightarrow> bytes"
  Server_Sign :: "bytes \<Rightarrow> bytes"

section \<open>Server: peer directory\<close>

text \<open>\<open>GetPeer\<close> (part_000, lines 31-49).\<close>

definition GetPeer ::
  "server_env \<Rightarrow> BFTRaftServer \<Rightarrow> u64 \<Rightarrow> u64 \<Rightarrow> Peer option \<times> BFTRaftServer" where
  "GetPeer env s grp peer_id =
     (let cacheKey = Sprint_peer_key grp peer_id
      in case Peers s cacheKey of
           Some cachedPeer \<Rightarrow> (Some cachedPeer, s)
         | None \<Rightarrow>
             (let dbKey = ComposeKeyPrefix grp (GROUP_PEERS env) @ U64Bytes peer_id
              in case DB_Get (DB s) dbKey of
                   None \<Rightarrow> (None, s)
                 | Some data \<Rightarrow>
                     (let peer = fst (Unmarshal env data)
                      in (Some peer, s\<lparr>Peers := (Peers s)(cacheKey \<mapsto> peer)\<rparr>))))"

text \<open>
  \<open>GetGroupPeers\<close> (part_000, lines 13-29). The body of the \<open>for\<close> loop reads the key
  under the iterator and appends the peer; it never moves the iterator, so the
  recursive call is on the same \<open>iter\<close>. The loop need not return: it is a partial
  function, \<open>None\<close> when it runs forever.
\<close>

partial_function (option) GetGroupPeers_loop ::
  "server_env \<Rightarrow> u64 \<Rightarrow> bytes \<Rightarrow> KV \<Rightarrow> Peer option list \<Rightarrow> BFTRaftServer \<Rightarrow>
   (Peer option list \<times> BFTRaftServer) outcome option" where
  "GetGroupPeers_loop env grp keyPrefix iter peers s =
     (if ValidForPrefix iter keyPrefix then
        (case BytesU64 (fst (hd iter)) (length keyPrefix) of
           None \<Rightarrow> Some Panic
         | Some peer_id \<Rightarrow>
             (case GetPeer env s grp peer_id of
                (peer, s') \<Rightarrow> GetGroupPeers_loop env grp keyPrefix iter (peers @ [peer]) s'))
      else Some (Returns (peers, s)))"

definition GetGroupPeers ::
  "server_env \<Rightarrow> BFTRaftServer \<Rightarrow> u64 \<Rightarrow>
   (Peer option list \<times> BFTRaftServer) outcome option" where
  "GetGroupPeers env s grp =
     (let cacheKey = Itoa (sint grp)
      in case GroupsPeers s cacheKey of
           Some cachedGroupPeers \<Rightarrow> Some (Returns (cachedGroupPeers, s))
         | None \<Rightarrow>
             (let keyPrefix = ComposeKeyPrefix grp (GROUP_PEERS env);
                  iter = Seek (DB s) (keyPrefix @ U64Bytes 0)
              in case GetGroupPeers_loop env grp keyPrefix iter [] s of
                   None \<Rightarrow> None
                 | Some Panic \<Rightarrow> Some Panic
                 | Some (Returns (peers, s')) \<Rightarrow>
                     Some (Returns (peers,
                       s'\<lparr>GroupsPeers := (GroupsPeers s')(cacheKey \<mapsto> peers)\<rparr>))))"

section \<open>Server: the uncommitted range of a peer\<close>

text \<open>
  \<open>PeerUncommittedLogEntries\<close> (part_000, lines 51-76). The reversed log iterator is
  the list of the entries that \<open>iter.Next()\<close> yields before it yields nil; the first
  loop consumes it from the head.
\<close>

definition sentinel :: LogEntry where
  "sentinel = \<lparr>Term = 0, Index = 0, Command = []\<rparr>"

fun PeerUncommittedLogEntries_loop ::
  "LogEntry list \<Rightarrow> u64 \<Rightarrow> LogEntry list \<Rightarrow> LogEntry \<Rightarrow> LogEntry list \<times> LogEntry" where
  "PeerUncommittedLogEntries_loop [] nextLogIdx entries prevEntry = (entries, prevEntry)"
| "PeerUncommittedLogEntries_loop (entry # iter) nextLogIdx entries prevEntry =
     (if Index entry < nextLogIdx then (entries, entry)
      else PeerUncommittedLogEntries_loop iter nextLogIdx (entries @ [entry]) entry)"

text \<open>
  The second loop of the function swaps \<open>entries[i]\<close> and \<open>entries[j]\<close> for
  \<open>i < len(entries)/2\<close>, \<open>j = len(entries) - i - 1\<close>; both indices are in range.
\<close>

function reverse_entries :: "nat \<Rightarrow> 'a list \<Rightarrow> 'a list" where
  "reverse_entries i entries =
     (if i < length entries div 2
      then (let j = length entries - i - 1
            in reverse_entries (i + 1) (entries[i := entries ! j, j := entries ! i]))
      else entries)"
  by pat_completeness auto
termination
  by (relation "measure (\<lambda>(i, entries). length entries div 2 - i)") auto

declare reverse_entries.simps [simp del]

definition PeerUncommittedLogEntries ::
  "server_env \<Rightarrow> RaftGroup \<Rightarrow> Peer \<Rightarrow> LogEntry list \<times> LogEntry" where
  "PeerUncommittedLogEntries env grp peer =
     (let iter = ReversedLogIterator env (Group_Id grp);
          nextLogIdx = NextIndex peer;
          (entries, prevEntry) = PeerUncommittedLogEntries_loop iter nextLogIdx [] sentinel
      in (reverse_entries 0 entries, prevEntry))"

text \<open>
  A log, in ascending order, is dense from index 1 when its i-th entry (counting from
  zero) has index i + 1; its indices fit in 64 bits.
\<close>

definition dense_log :: "LogEntry list \<Rightarrow> bool" where
  "dense_log L \<longleftrightarrow>
     length L < 2 ^ 64 \<and> map (\<lambda>e. unat (Index e)) L = [1 ..< Suc (length L)]"

section \<open>Server: replication dispatcher\<close>

text \<open>
  \<open>SendPeerUncommittedLogEntries\<close> (part_000, lines 78-99). The function returns
  nothing; its effect is the goroutine it may start. \<open>NotDispatched\<close>: no goroutine
  and no RPC. \<open>AppendEntries c req\<close>: the goroutine issues the RPC with request
  \<open>req\<close> through \<open>c.rpc\<close>. \<open>GoroutinePanic\<close>: the goroutine dereferences the nil
  client. The goroutine is started in the branch \<open>err != nil\<close>.
\<close>

datatype dispatch = NotDispatched | AppendEntries Client AppendEntriesRequest | GoroutinePanic

definition SendPeerUncommittedLogEntries ::
  "server_env \<Rightarrow> BFTRaftServer \<Rightarrow> RaftGroup \<Rightarrow> Peer \<Rightarrow> dispatch" where
  "SendPeerUncommittedLogEntries env s grp peer =
     (case GetNode env (Peer_Host peer) of
        None \<Rightarrow> NotDispatched
      | Some node \<Rightarrow>
          (case ClusterClients_Get env (ServerAddr node) of
             (client, err) \<Rightarrow>
               if err \<noteq> None then
                 (let (entries, prevEntry) =
                        PeerUncommittedLogEntries env grp peer;
                      signData = AppendLogEntrySignData env (Group_Id grp) (Group_Term grp)
                        (Index prevEntry) (Term prevEntry)
                  in case client of
                       None \<Rightarrow> GoroutinePanic
                     | Some c \<Rightarrow>
                         AppendEntries c
                           \<lparr>Req_Group = Group_Id grp, Req_Term = Group_Term grp,
                            LeaderId = Id s, PrevLogIndex = Index prevEntry,
                            PrevLogTerm = Term prevEntry,
                            Signature = Server_Sign env signData,
                            QuorumVotes = [], Entries = entries\<rparr>)
               else NotDispatched))"

section \<open>Quorum query\<close>

text \<open>
  A value of Go's \<open>interface{}\<close> is an \<open>option\<close>: \<open>None\<close> is the nil interface. A
  query closure returns such a value with its canonical bytes, or panics.
\<close>

text \<open>
  Modelled from the spec: the fan-out of \<open>MajorityResponse\<close> (package utils, not among
  the sources at hand). Section 4.8, step 1, of the specification: the query is invoked
  on every client. The specification has nothing on a closure that panics; a panic in a
  goroutine ends the process, so the responses are collected only when no closure
  panicked.
\<close>

fun collect_responses :: "'r outcome list \<Rightarrow> 'r list outcome" where
  "collect_responses [] = Returns []"
| "collect_responses (Panic # rs) = Panic"
| "collect_responses (Returns r # rs) =
     (case collect_responses rs of Panic \<Rightarrow> Panic | Returns rs' \<Rightarrow> Returns (r # rs'))"

text \<open>
  Modelled from the spec: the tally of \<open>MajorityResponse\<close>. Section 4.8, step 2, of the
  specification: each response's canonical bytes are hashed; empty bytes denote an
  abstention and contribute to no tally. The hash is \<open>HashData\<close>, a parameter.
\<close>

definition tally :: "(bytes \<Rightarrow> u64) \<Rightarrow> ('v \<times> bytes) list \<Rightarrow> bytes \<Rightarrow> nat" where
  "tally H responses b = length (filter (\<lambda>r. snd r \<noteq> [] \<and> H (snd r) = H b) responses)"

text \<open>
  Modelled from the spec: the choice of \<open>MajorityResponse\<close>. Section 4.8, steps 3 and
  4, of the specification: the winning hash is the one held by a strict majority, more
  than \<open>|P|/2\<close>, of the responses that do not abstain; ties and outcomes below the
  majority yield no result; the result is one of the values associated with the
  winning hash (here the value of the first such response, in client order).
\<close>

definition majority_value :: "(bytes \<Rightarrow> u64) \<Rightarrow> ('v option \<times> bytes) list \<Rightarrow> 'v option" where
  "majority_value H responses =
     (case filter (\<lambda>r. snd r \<noteq> [] \<and> length responses < 2 * tally H responses (snd r))
             responses of
        [] \<Rightarrow> None
      | r # _ \<Rightarrow> fst r)"

text \<open>
  Modelled from the spec: \<open>MajorityResponse\<close> (package utils, not among the sources at
  hand), section 4.8 of the specification, from the three parts above.
\<close>

definition MajorityResponse ::
  "(bytes \<Rightarrow> u64) \<Rightarrow> 'c list \<Rightarrow> ('c \<Rightarrow> ('v option \<times> bytes) outcome) \<Rightarrow> 'v option outcome" where
  "MajorityResponse H clients f =
     (case collect_responses (map f clients) of
        Panic \<Rightarrow> Panic
      | Returns responses \<Rightarrow> Returns (majority_value H responses))"

section \<open>Client state and environment\<close>

text \<open>
  An RPC stub of type \<open>spb.BFTRaftClient\<close>, named by the address it was dialled for.
\<close>

datatype spb_BFTRaftClient = RPCClient string

record GroupNodesResponse =
  Nodes :: "Host list"
  Nodes_Signature :: bytes

text \<open>
  \<open>BFTRaftClient\<close>. The caches hold the entries that are present and not expired;
  \<open>AlphaRPCs\<close> is what \<open>AlphaRPCs.Get()\<close> returns; \<open>CmdResChan\<close> maps a group to the
  request ids that have an open channel; \<open>Counter\<close> is the 64-bit counter.
\<close>

record BFTRaftClient =
  Client_Id :: u64
  PrivateKey :: bytes
  AlphaRPCs :: "spb_BFTRaftClient list"
  GroupHosts :: "string \<rightharpoonup> Host list"
  GroupLeader :: "string \<rightharpoonup> spb_BFTRaftClient"
  CmdResChan :: "u64 \<rightharpoonup> u64 set"
  Counter :: u64

text \<open>
  What the client functions call and the sources at hand do not contain. From package
  utils: \<open>HashData\<close>, \<open>PickMajority\<close>, \<open>ExpectedPlayers\<close>, \<open>GetClusterRPC\<close> (\<open>None\<close>
  when it returns an error), \<open>NodesSignData\<close>, \<open>ExecCommandSignData\<close>, \<open>Sign\<close> and
  the constant \<open>ALPHA_GROUP\<close>. From the network: what each RPC stub answers to
  \<open>GroupHosts\<close> (\<open>None\<close>: an error), to \<open>GetGroupLeader\<close> (\<open>None\<close>: an error;
  \<open>Some None\<close>: a response whose \<open>Node\<close> is nil) and to \<open>GetGroupContent\<close> (whether
  the error is nil).
\<close>

record client_env =
  HashData :: "bytes \<Rightarrow> u64"
  PickMajority :: "u64 list \<Rightarrow> u64"
  ExpectedPlayers :: "int \<Rightarrow> int"
  GetClusterRPC :: "string \<Rightarrow> spb_BFTRaftClient option"
  NodesSignData :: "Host list \<Rightarrow> bytes"
  ExecCommandSignData :: "CommandRequest \<Rightarrow> bytes"
  Sign :: "bytes \<Rightarrow> bytes \<Rightarrow> bytes"
  ALPHA_GROUP :: u64
  rpc_GroupHosts :: "spb_BFTRaftClient \<Rightarrow> u64 \<Rightarrow> GroupNodesResponse option"
  rpc_GetGroupLeader :: "spb_BFTRaftClient \<Rightarrow> u64 \<Rightarrow> Host option option"
  rpc_GetGroupContent :: "spb_BFTRaftClient \<Rightarrow> u64 \<Rightarrow> bool"

section \<open>Client: membership resolver\<close>

text \<open>
  \<open>GetGroupHosts\<close> (part_001, lines 54-77), with its closure and its quorum query
  named.
\<close>

definition GroupHosts_query ::
  "client_env \<Rightarrow> u64 \<Rightarrow> spb_BFTRaftClient \<Rightarrow> (Host list option \<times> bytes) outcome" where
  "GroupHosts_query env groupId client =
     (case rpc_GroupHosts env client groupId of
        Some res \<Rightarrow> Returns (Some (Nodes res), NodesSignData env (Nodes res))
      | None \<Rightarrow> Returns (None, []))"

definition GetGroupHosts ::
  "client_env \<Rightarrow> BFTRaftClient \<Rightarrow> u64 \<Rightarrow> (Host list option \<times> BFTRaftClient) outcome" where
  "GetGroupHosts env brc groupId =
     (let cacheKey = Itoa (sint groupId)
      in case GroupHosts brc cacheKey of
           Some cached \<Rightarrow> Returns (Some cached, brc)
         | None \<Rightarrow>
             (case MajorityResponse (HashData env) (AlphaRPCs brc)
                     (GroupHosts_query env groupId) of
                Panic \<Rightarrow> Panic
              | Returns res \<Rightarrow>
                  (case res of
                     None \<Rightarrow> Returns (None, brc)
                   | Some hosts \<Rightarrow>
                       Returns (Some hosts,
                         brc\<lparr>GroupHosts := (GroupHosts brc)(cacheKey \<mapsto> hosts)\<rparr>))))"

text \<open>
  \<open>GetGroupLeader\<close> (part_001, lines 79-111). The closure reads
  \<open>res.Node.ServerAddr\<close> also when \<open>res.Node\<close> is nil, which panics. \<open>[]byte(s)\<close> is
  the string's bytes.
\<close>

definition GroupLeader_query ::
  "client_env \<Rightarrow> u64 \<Rightarrow> spb_BFTRaftClient \<Rightarrow> (Host option \<times> bytes) outcome" where
  "GroupLeader_query env groupId client =
     (case rpc_GetGroupLeader env client groupId of
        Some res_Node \<Rightarrow>
          (case res_Node of
             None \<Rightarrow> Panic
           | Some node \<Rightarrow> Returns (Some node, map of_char (ServerAddr node)))
      | None \<Rightarrow> Returns (None, []))"

definition GetGroupLeader ::
  "client_env \<Rightarrow> BFTRaftClient \<Rightarrow> u64 \<Rightarrow>
   (spb_BFTRaftClient option \<times> BFTRaftClient) outcome" where
  "GetGroupLeader env brc groupId =
     (let cacheKey = Itoa (sint groupId)
      in case GroupLeader brc cacheKey of
           Some cached \<Rightarrow> Returns (Some cached, brc)
         | None \<Rightarrow>
             (case MajorityResponse (HashData env) (AlphaRPCs brc)
                     (GroupLeader_query env groupId) of
                Panic \<Rightarrow> Panic
              | Returns res \<Rightarrow>
                  (case res of
                     Some leaderHost \<Rightarrow>
                       (case GetClusterRPC env (ServerAddr leaderHost) of
                          Some leader \<Rightarrow>
                            Returns (Some leader,
                              brc\<lparr>GroupLeader := (GroupLeader brc)(cacheKey \<mapsto> leader)\<rparr>)
                        | None \<Rightarrow> Returns (None, brc))
                   | None \<Rightarrow> Returns (None, brc))))"

text \<open>
  \<open>GroupExists\<close> (part_001, lines 113-125). \<open>res.(bool)\<close> is a type assertion
  without the comma-ok form: it panics on the nil interface.
\<close>

definition GroupExists_query ::
  "client_env \<Rightarrow> u64 \<Rightarrow> spb_BFTRaftClient \<Rightarrow> (bool option \<times> bytes) outcome" where
  "GroupExists_query env groupId client =
     (if rpc_GetGroupContent env client groupId
      then Returns (Some True, [1])
      else Returns (Some False, [0]))"

definition GroupExists :: "client_env \<Rightarrow> BFTRaftClient \<Rightarrow> u64 \<Rightarrow> bool outcome" where
  "GroupExists env brc groupId =
     (case MajorityResponse (HashData env) (AlphaRPCs brc) (GroupExists_query env groupId) of
        Panic \<Rightarrow> Panic
      | Returns res \<Rightarrow> (case res of None \<Rightarrow> Panic | Some b \<Rightarrow> Returns b))"

section \<open>Client: command executor\<close>

text \<open>
  The request's channel is unbuffered. It is the list \<open>inbox\<close> of the results that
  senders (the goroutine calling the leader, and the deliveries of the replicas) offer on
  it before \<open>ExecCommand\<close> returns, in order; a result offered later finds the channel
  deregistered. The collector goroutine of \<open>ExecCommand\<close> (part_001, lines 171-179)
  receives \<open>expectedResponse\<close> results from the head of the list. The first argument
  after the hash counts the receives still to do; with the list used up before that, the
  goroutine is blocked on the receive when the timer fires and the wait group never
  completes: \<open>None\<close>.
\<close>

fun collector ::
  "(bytes \<Rightarrow> u64) \<Rightarrow> nat \<Rightarrow> bytes list \<Rightarrow> (u64 \<rightharpoonup> bytes) \<Rightarrow> u64 list \<Rightarrow>
   ((u64 \<rightharpoonup> bytes) \<times> u64 list) option" where
  "collector H 0 inbox responseReceived responseHashes =
     Some (responseReceived, responseHashes)"
| "collector H (Suc n) [] responseReceived responseHashes = None"
| "collector H (Suc n) (res # inbox) responseReceived responseHashes =
     (let hash = H res
      in collector H n inbox (responseReceived(hash \<mapsto> res)) (responseHashes @ [hash]))"

definition register :: "(u64 \<rightharpoonup> u64 set) \<Rightarrow> u64 \<Rightarrow> u64 \<Rightarrow> (u64 \<rightharpoonup> u64 set)" where
  "register chans groupId reqId =
     chans(groupId \<mapsto> insert reqId (case chans groupId of None \<Rightarrow> {} | Some ids \<Rightarrow> ids))"

definition deregister :: "(u64 \<rightharpoonup> u64 set) \<Rightarrow> u64 \<Rightarrow> u64 \<Rightarrow> (u64 \<rightharpoonup> u64 set)" where
  "deregister chans groupId reqId =
     (case chans groupId of None \<Rightarrow> chans | Some ids \<Rightarrow> chans(groupId \<mapsto> ids - {reqId}))"

text \<open>
  The deferred function of \<open>ExecCommand\<close> (part_001, lines 146-149) closes the
  request's channel. An offered result that no receive has taken belongs to a sender
  blocked on the unbuffered channel (part_001, line 155): the close makes that sender
  panic, and the panic of a goroutine ends the process. \<open>pending\<close> are the results
  offered and not received when the function returns \<open>r\<close>.
\<close>

definition deferred_close :: "bytes list \<Rightarrow> 'r \<Rightarrow> 'r outcome" where
  "deferred_close pending r = (if pending = [] then Returns r else Panic)"

text \<open>
  \<open>ExecCommand\<close> (part_001, lines 127-192). It returns the pair of Go (result or
  error, the error by its message), the client after the call, and the requests for
  which a goroutine calling \<open>leader.ExecCommand\<close> was started, each with the stub it
  goes to. The deferred function runs on every return after the channel is registered.
  \<open>wg.Add\<close> panics on a negative count. The \<open>select\<close> takes the completion branch
  when the collector has done all its receives before the timer fires, and the timer
  branch otherwise. On the return for absent hosts nothing has received from the
  channel, so every offered result is pending; on the timer branch the collector is
  still receiving, so none is; on the completion branch the results offered beyond the
  \<open>expectedResponse\<close> received ones are.
\<close>

definition ExecCommand ::
  "client_env \<Rightarrow> bytes list \<Rightarrow> BFTRaftClient \<Rightarrow> u64 \<Rightarrow> u64 \<Rightarrow> bytes \<Rightarrow>
   ((string + bytes) \<times> BFTRaftClient \<times> (spb_BFTRaftClient \<times> CommandRequest) list) outcome"
  where
  "ExecCommand env inbox brc groupId funcId arg =
     (case GetGroupLeader env brc groupId of
        Panic \<Rightarrow> Panic
      | Returns (leaderOpt, brc1) \<Rightarrow>
          (case leaderOpt of
             None \<Rightarrow> Returns (Inl ''cannot found leader'', brc1, [])
           | Some leader \<Rightarrow>
               (let reqId = Counter brc1 + 1;
                    brc2 = brc1\<lparr>Counter := reqId\<rparr>;
                    cmdReq0 = \<lparr>Cmd_Group = groupId, ClientId = Client_Id brc2,
                               RequestId = reqId, FuncId = funcId, Arg = arg,
                               Cmd_Signature = []\<rparr>;
                    signData = ExecCommandSignData env cmdReq0;
                    cmdReq = cmdReq0\<lparr>Cmd_Signature := Sign env (PrivateKey brc2) signData\<rparr>;
                    brc3 = brc2\<lparr>CmdResChan := register (CmdResChan brc2) groupId reqId\<rparr>;
                    started = [(leader, cmdReq)]
                in case GetGroupHosts env brc3 groupId of
                     Panic \<Rightarrow> Panic
                   | Returns (hostsOpt, brc4) \<Rightarrow>
                       (let brc5 =
                              brc4\<lparr>CmdResChan := deregister (CmdResChan brc4) groupId reqId\<rparr>
                        in case hostsOpt of
                             None \<Rightarrow>
                               deferred_close inbox
                                 (Inl ''cannot get group hosts'', brc5, started)
                           | Some hosts \<Rightarrow>
                               (let expectedResponse =
                                      ExpectedPlayers env (int (length hosts))
                                in if expectedResponse < 0 then Panic
                                   else
                                     (case collector (HashData env) (nat expectedResponse)
                                             inbox Map.empty [] of
                                        None \<Rightarrow>
                                          Returns (Inl ''does not receive enough response'',
                                            brc5, started)
                                      | Some (responseReceived, responseHashes) \<Rightarrow>
                                          (let majorityHash =
                                                 PickMajority env responseHashes;
                                               majorityData =
                                                 (case responseReceived majorityHash of
                                                    None \<Rightarrow> []
                                                  | Some d \<Rightarrow> d)
                                           in deferred_close
                                                (drop (nat expectedResponse) inbox)
                                                (Inr majorityData, brc5, started))))))))"

section \<open>Bootstrap: alpha nodes\<close>

text \<open>
  \<open>AlphaNodes\<close> (utils/alpha.go, lines 9-31). The first loop keeps the stubs of the
  addresses for which \<open>GetClusterRPC\<close> returns no error. The value of the closure is a
  pointer to the response inside an interface: on an RPC error it is a nil pointer of
  that type (\<open>Some None\<close>), which is not the nil interface, with empty canonical bytes.
  Reading \<open>.Nodes\<close> through such a pointer panics.
\<close>

definition bootstrapServers :: "client_env \<Rightarrow> string list \<Rightarrow> spb_BFTRaftClient list" where
  "bootstrapServers env servers = List.map_filter (GetClusterRPC env) servers"

definition AlphaNodes_query ::
  "client_env \<Rightarrow> spb_BFTRaftClient \<Rightarrow> (GroupNodesResponse option option \<times> bytes) outcome"
  where
  "AlphaNodes_query env c =
     (case rpc_GroupHosts env c (ALPHA_GROUP env) of
        Some nodes \<Rightarrow> Returns (Some (Some nodes), NodesSignData env (Nodes nodes))
      | None \<Rightarrow> Returns (Some None, []))"

definition AlphaNodes :: "client_env \<Rightarrow> string list \<Rightarrow> Host list option outcome" where
  "AlphaNodes env servers =
     (case MajorityResponse (HashData env) (bootstrapServers env servers)
             (AlphaNodes_query env) of
        Panic \<Rightarrow> Panic
      | Returns res \<Rightarrow>
          (case res of
             None \<Rightarrow> Returns None
           | Some ptr \<Rightarrow> (case ptr of None \<Rightarrow> Panic | Some nodes \<Rightarrow> Returns (Some (Nodes nodes)))))"

section \<open>Auxiliary definitions and example inputs\<close>

text \<open>
  The number of entries of a dense log whose index is below \<open>k\<close>.
\<close>

definition below :: "u64 \<Rightarrow> LogEntry list \<Rightarrow> nat" where
  "below k L = min (unat k - 1) (length L)"

text \<open>
  A log of five entries with terms 1, 1, 2, 2, 3 (scenario 5 of the specification), a
  group and a peer with a given \<open>nextIndex\<close>.
\<close>

definition example_log :: "LogEntry list" where
  "example_log =
     [\<lparr>Term = 1, Index = 1, Command = []\<rparr>, \<lparr>Term = 1, Index = 2, Command = []\<rparr>,
      \<lparr>Term = 2, Index = 3, Command = []\<rparr>, \<lparr>Term = 2, Index = 4, Command = []\<rparr>,
      \<lparr>Term = 3, Index = 5, Command = []\<rparr>]"

definition example_group :: RaftGroup where
  "example_group = \<lparr>Group_Id = 7, Group_Term = 3\<rparr>"

definition example_peer :: "u64 \<Rightarrow> Peer" where
  "example_peer k = \<lparr>Peer_Id = 2, Peer_Host = 9, NextIndex = k\<rparr>"

text \<open>
  An environment for the server examples. Its decoder reads three big-endian 64-bit
  fields and reports an error unless the value has exactly 24 bytes, leaving zero in the
  fields it could not read. Group 7 has the log above; node 9 is known; the client pool
  hands out a client for every address, with no error.
\<close>

definition example_Unmarshal :: "bytes \<Rightarrow> Peer \<times> bool" where
  "example_Unmarshal data =
     (\<lparr>Peer_Id = (case BytesU64 data 0 of Some x \<Rightarrow> x | None \<Rightarrow> 0),
       Peer_Host = (case BytesU64 data 8 of Some x \<Rightarrow> x | None \<Rightarrow> 0),
       NextIndex = (case BytesU64 data 16 of Some x \<Rightarrow> x | None \<Rightarrow> 0)\<rparr>,
      length data \<noteq> 24)"

definition example_node :: Host where
  "example_node = \<lparr>Host_Id = 9, ServerAddr = ''10.0.0.9:4560'', PublicKey = []\<rparr>"

definition example_server_env :: server_env where
  "example_server_env =
     \<lparr>GROUP_PEERS = 2,
      Unmarshal = example_Unmarshal,
      ReversedLogIterator = (\<lambda>g. if g = 7 then rev example_log else []),
      GetNode = (\<lambda>h. if h = 9 then Some example_node else None),
      ClusterClients_Get = (\<lambda>addr. (Some \<lparr>rpc = addr\<rparr>, None)),
      AppendLogEntrySignData = (\<lambda>g t pi pt. U64Bytes g @ U64Bytes t @ U64Bytes pi @ U64Bytes pt),
      Server_Sign = (\<lambda>d. d)\<rparr>"

text \<open>
  A store with two rows of the peer table of group 7: peer 2, whose value decodes, and
  peer 4, whose value is a single byte. A server with this store and empty caches, and
  the same server after the row of peer 2 was deleted while the peer is still cached.
\<close>

definition example_db :: KV where
  "example_db =
     [(ComposeKeyPrefix 7 2 @ U64Bytes 2, U64Bytes 2 @ U64Bytes 9 @ U64Bytes 3),
      (ComposeKeyPrefix 7 2 @ U64Bytes 4, [255])]"

definition example_server :: BFTRaftServer where
  "example_server = \<lparr>Id = 1, DB = example_db, GroupsPeers = Map.empty, Peers = Map.empty\<rparr>"

definition example_server_stale :: BFTRaftServer where
  "example_server_stale =
     \<lparr>Id = 1, DB = [], GroupsPeers = Map.empty,
      Peers = [Sprint_peer_key 7 2 \<mapsto> example_peer 3]\<rparr>"

text \<open>
  The same environment with a client pool that returns an error and no client.
\<close>

definition example_server_env_refused :: server_env where
  "example_server_env_refused =
     example_server_env\<lparr>ClusterClients_Get := (\<lambda>addr. (None, Some ''connection refused''))\<rparr>"

section \<open>Auxiliary definitions for the client\<close>

text \<open>
  The clients among \<open>clients\<close> whose closure \<open>f\<close> returned canonical bytes that are
  not empty and have the hash of \<open>b\<close>, and those whose canonical bytes are \<open>b\<close> itself.
\<close>

definition supporters ::
  "(bytes \<Rightarrow> u64) \<Rightarrow> 'c list \<Rightarrow> ('c \<Rightarrow> ('v option \<times> bytes) outcome) \<Rightarrow> bytes \<Rightarrow> 'c list" where
  "supporters H clients f b =
     filter (\<lambda>c. case f c of Panic \<Rightarrow> False
                 | Returns r \<Rightarrow> snd r \<noteq> [] \<and> H (snd r) = H b) clients"

definition identical ::
  "'c list \<Rightarrow> ('c \<Rightarrow> ('v option \<times> bytes) outcome) \<Rightarrow> bytes \<Rightarrow> 'c list" where
  "identical clients f b =
     filter (\<lambda>c. case f c of Panic \<Rightarrow> False | Returns r \<Rightarrow> snd r = b) clients"

text \<open>
  The quorum query over \<open>clients\<close> accepts the value \<open>v\<close>: some client returned \<open>v\<close>
  with canonical bytes that are not empty, and a strict majority of the clients
  returned canonical bytes of the same hash (\<open>accepted_by_quorum\<close>) or the same bytes
  (\<open>accepted_identical\<close>).
\<close>

definition accepted_by_quorum ::
  "(bytes \<Rightarrow> u64) \<Rightarrow> 'c list \<Rightarrow> ('c \<Rightarrow> ('v option \<times> bytes) outcome) \<Rightarrow> 'v \<Rightarrow> bool" where
  "accepted_by_quorum H clients f v =
     list_ex (\<lambda>c. case f c of Panic \<Rightarrow> False
                  | Returns r \<Rightarrow> fst r = Some v \<and> snd r \<noteq> [] \<and>
                      length clients < 2 * length (supporters H clients f (snd r))) clients"

definition accepted_identical ::
  "'c list \<Rightarrow> ('c \<Rightarrow> ('v option \<times> bytes) outcome) \<Rightarrow> 'v \<Rightarrow> bool" where
  "accepted_identical clients f v =
     list_ex (\<lambda>c. case f c of Panic \<Rightarrow> False
                  | Returns r \<Rightarrow> fst r = Some v \<and> snd r \<noteq> [] \<and>
                      length clients < 2 * length (identical clients f (snd r))) clients"

text \<open>
  The canonical forms that the closure returned over \<open>clients\<close>.
\<close>

definition canonical_forms ::
  "'c list \<Rightarrow> ('c \<Rightarrow> ('v option \<times> bytes) outcome) \<Rightarrow> bytes list" where
  "canonical_forms clients f =
     concat (map (\<lambda>c. case f c of Panic \<Rightarrow> [] | Returns r \<Rightarrow> [snd r]) clients)"

text \<open>
  The client as \<open>ExecCommand\<close> has it when it calls \<open>GetGroupHosts\<close>: the counter
  incremented and the channel of the new request registered.
\<close>

definition registered :: "BFTRaftClient \<Rightarrow> u64 \<Rightarrow> BFTRaftClient" where
  "registered brc groupId =
     brc\<lparr>Counter := Counter brc + 1,
         CmdResChan := register (CmdResChan brc) groupId (Counter brc + 1)\<rparr>"

text \<open>
  The last of the collected responses whose hash is \<open>h\<close>, empty when there is none:
  what the map \<open>responseReceived\<close> holds under \<open>h\<close>.
\<close>

definition last_with_hash :: "(bytes \<Rightarrow> u64) \<Rightarrow> bytes list \<Rightarrow> u64 \<Rightarrow> bytes" where
  "last_with_hash H collected h =
     (case filter (\<lambda>res. H res = h) (rev collected) of [] \<Rightarrow> [] | res # _ \<Rightarrow> res)"

section \<open>Example inputs for the client\<close>

text \<open>
  An instance of \<open>HashData\<close> for the examples: the 64-bit FNV-1a hash.
\<close>

definition example_HashData :: "bytes \<Rightarrow> u64" where
  "example_HashData data =
     foldl (\<lambda>h b. (h XOR ucast b) * 1099511628211) 14695981039346656037 data"

text \<open>
  Modelled from the spec: \<open>PickMajority\<close> (package utils, not among the sources at
  hand; a parameter of \<open>ExecCommand\<close>), as an instance for the examples. Section 4.10,
  step 7, and scenario 3 of the specification: the hash with the plurality among the
  collected ones; here the first hash of maximal count, and 0 on no hashes.
\<close>

definition example_PickMajority :: "u64 list \<Rightarrow> u64" where
  "example_PickMajority hashes =
     (case filter (\<lambda>h. list_all (\<lambda>h'. count_list hashes h' \<le> count_list hashes h) hashes)
             hashes of
        [] \<Rightarrow> 0
      | h # _ \<Rightarrow> h)"

text \<open>
  Modelled from the spec: \<open>ExpectedPlayers\<close> (package utils, not among the sources at
  hand; a parameter of \<open>ExecCommand\<close>), as an instance for the examples. The glossary
  and section 4.10, step 6, of the specification: the quorum \<open>2n div 3 + 1\<close> over
  \<open>n\<close> hosts, which is 3 for four hosts and 1 for one.
\<close>

definition example_ExpectedPlayers :: "int \<Rightarrow> int" where
  "example_ExpectedPlayers n = 2 * n div 3 + 1"

text \<open>
  A network for the examples. Group 7 has four hosts and the leader \<open>h1\<close>, on which
  every alpha node agrees. For group 8 every alpha node names the leader and fails the
  \<open>GroupHosts\<close> call. Group 9 is known to the alpha node \<open>alpha1\<close> only. The alpha
  group is group 1; the node \<open>alpha3\<close> fails the \<open>GroupHosts\<close> call for it. The
  address \<open>down\<close> cannot be dialled.
\<close>

definition example_host :: "u64 \<Rightarrow> string \<Rightarrow> Host" where
  "example_host i addr = \<lparr>Host_Id = i, ServerAddr = addr, PublicKey = []\<rparr>"

definition example_hosts :: "Host list" where
  "example_hosts =
     [example_host 1 ''h1'', example_host 2 ''h2'', example_host 3 ''h3'',
      example_host 4 ''h4'']"

definition example_client_env :: client_env where
  "example_client_env =
     \<lparr>HashData = example_HashData,
      PickMajority = example_PickMajority,
      ExpectedPlayers = example_ExpectedPlayers,
      GetClusterRPC = (\<lambda>addr. if addr = ''down'' then None else Some (RPCClient addr)),
      NodesSignData = (\<lambda>hosts. concat (map (\<lambda>h. map of_char (ServerAddr h)) hosts)),
      ExecCommandSignData =
        (\<lambda>req. U64Bytes (Cmd_Group req) @ U64Bytes (ClientId req) @ U64Bytes (RequestId req)
           @ U64Bytes (FuncId req) @ Arg req),
      Sign = (\<lambda>key data. key @ data),
      ALPHA_GROUP = 1,
      rpc_GroupHosts =
        (\<lambda>c g. if g = 7 \<or> (g = 1 \<and> c \<noteq> RPCClient ''alpha3'')
               then Some \<lparr>Nodes = example_hosts, Nodes_Signature = []\<rparr>
               else None),
      rpc_GetGroupLeader =
        (\<lambda>c g. if g = 7 \<or> g = 8 then Some (Some (example_host 1 ''h1'')) else None),
      rpc_GetGroupContent = (\<lambda>c g. g = 7 \<or> (g = 9 \<and> c = RPCClient ''alpha1''))\<rparr>"

definition example_client :: BFTRaftClient where
  "example_client =
     \<lparr>Client_Id = 5, PrivateKey = [1],
      AlphaRPCs = [RPCClient ''alpha1'', RPCClient ''alpha2''],
      GroupHosts = Map.empty, GroupLeader = Map.empty,
      CmdResChan = Map.empty, Counter = 0\<rparr>"

text \<open>
  What a call that did not panic returned (result or error), and the goroutines it
  started; the number of responses with the hash of given bytes.
\<close>

fun returned :: "('r \<times> 's) outcome \<Rightarrow> 'r option" where
  "returned Panic = None"
| "returned (Returns (r, s)) = Some r"

fun started_calls :: "('r \<times> 's \<times> 't list) outcome \<Rightarrow> 't list" where
  "started_calls Panic = []"
| "started_calls (Returns (r, s, t)) = t"

definition hash_equal_count :: "(bytes \<Rightarrow> u64) \<Rightarrow> bytes list \<Rightarrow> bytes \<Rightarrow> nat" where
  "hash_equal_count H responses data = length (filter (\<lambda>res. H res = H data) responses)"

text \<open>
  The example client once it has resolved and cached the leader under a key.
\<close>

definition example_client_leader :: "string \<Rightarrow> BFTRaftClient" where
  "example_client_leader key = example_client\<lparr>GroupLeader := [key \<mapsto> RPCClient ''h1'']\<rparr>"

text \<open>
  A bootstrap list of four addresses, one of which cannot be dialled.
\<close>

definition example_bootstraps :: "string list" where
  "example_bootstraps = [''alpha1'', ''down'', ''alpha3'', ''alpha2'']"

definition example_alpha_response :: GroupNodesResponse where
  "example_alpha_response = \<lparr>Nodes = example_hosts, Nodes_Signature = []\<rparr>"

text \<open>
  A hash that collides, for the examples: the sum of the bytes. A network on which the
  two alpha nodes return the two hosts of group 7 in different orders, so that the
  canonical forms differ and their sums agree.
\<close>

definition colliding_HashData :: "bytes \<Rightarrow> u64" where
  "colliding_HashData data = sum_list (map ucast data)"

definition example_hosts_a :: "Host list" where
  "example_hosts_a = [example_host 1 ''h1'', example_host 2 ''h2'']"

definition example_hosts_b :: "Host list" where
  "example_hosts_b = [example_host 2 ''h2'', example_host 1 ''h1'']"

definition example_client_env_colliding :: client_env where
  "example_client_env_colliding =
     example_client_env
       \<lparr>HashData := colliding_HashData,
        rpc_GroupHosts :=
          (\<lambda>c g. if c = RPCClient ''alpha1''
                 then Some \<lparr>Nodes = example_hosts_a, Nodes_Signature = []\<rparr>
                 else Some \<lparr>Nodes = example_hosts_b, Nodes_Signature = []\<rparr>)\<rparr>"

section \<open>The uncommitted range (claim C1)\<close>

text \<open>The swap loop reverses the list.\<close>

lemma length_reverse_entries: "length (reverse_entries i xs) = length xs"
proof (induction i xs rule: reverse_entries.induct)
  case (1 i entries)
  show ?case
  proof (cases "i < length entries div 2")
    case True
    with "1.IH" [OF True refl] show ?thesis
      by (subst reverse_entries.simps) (simp add: Let_def)
  next
    case False
    then show ?thesis by (subst reverse_entries.simps) simp
  qed
qed

lemma nth_reverse_entries:
  "p < length xs \<Longrightarrow>
   reverse_entries i xs ! p =
     (if i \<le> p \<and> p < length xs - i then xs ! (length xs - 1 - p) else xs ! p)"
proof (induction i xs arbitrary: p rule: reverse_entries.induct)
  case (1 i entries)
  let ?n = "length entries"
  show ?case
  proof (cases "i < ?n div 2")
    case True
    let ?j = "?n - i - 1"
    let ?ys = "entries[i := entries ! ?j, ?j := entries ! i]"
    have len: "length ?ys = ?n" by simp
    have step: "reverse_entries i entries = reverse_entries (i + 1) ?ys"
      using True by (subst reverse_entries.simps) (simp add: Let_def)
    have ih: "reverse_entries (i + 1) ?ys ! p =
        (if i + 1 \<le> p \<and> p < ?n - (i + 1) then ?ys ! (?n - 1 - p) else ?ys ! p)"
      using "1.IH" [OF True refl, of p] "1.prems" len by simp
    have ij: "i < ?j" "?j < ?n" using True by auto
    show ?thesis
    proof (cases "i + 1 \<le> p \<and> p < ?n - (i + 1)")
      case mid: True
      then have "?n - 1 - p \<noteq> i" "?n - 1 - p \<noteq> ?j" by auto
      then have "?ys ! (?n - 1 - p) = entries ! (?n - 1 - p)" by simp
      with mid ih step show ?thesis by auto
    next
      case out: False
      then consider "p = i" | "p = ?j" | "p < i" | "?n - i \<le> p"
        using "1.prems" by force
      then show ?thesis
      proof cases
        case 1
        then have "?ys ! p = entries ! ?j" using ij by (simp add: nth_list_update)
        with out ih step 1 ij show ?thesis by auto
      next
        case 2
        then have "?ys ! p = entries ! i" using ij by (simp add: nth_list_update)
        moreover have "?n - 1 - ?j = i" using ij by auto
        ultimately show ?thesis using out ih step 2 ij by auto
      next
        case 3
        then have "?ys ! p = entries ! p" using ij by (simp add: nth_list_update)
        with out ih step 3 show ?thesis by auto
      next
        case 4
        then have "?ys ! p = entries ! p" using ij by (simp add: nth_list_update)
        with out ih step 4 show ?thesis by auto
      qed
    qed
  next
    case False
    then have stop: "reverse_entries i entries = entries"
      by (subst reverse_entries.simps) simp
    have "entries ! (?n - 1 - p) = entries ! p" if "i \<le> p" "p < ?n - i"
    proof -
      from that False have "?n - 1 - p = p" by linarith
      then show ?thesis by simp
    qed
    with stop show ?thesis by auto
  qed
qed

lemma reverse_entries_rev: "reverse_entries 0 xs = rev xs"
  by (rule nth_equalityI)
     (simp_all add: length_reverse_entries nth_reverse_entries rev_nth)



lemma loop_append_all:
  "\<forall>e\<in>set xs. \<not> Index e < k \<Longrightarrow>
   PeerUncommittedLogEntries_loop (xs @ ys) k acc prev =
   PeerUncommittedLogEntries_loop ys k (acc @ xs) (if xs = [] then prev else last xs)"
  by (induction xs arbitrary: acc prev) auto

lemma dense_log_nth:
  "dense_log L \<Longrightarrow> i < length L \<Longrightarrow> unat (Index (L ! i)) = Suc i"
proof -
  assume d: "dense_log L" and i: "i < length L"
  then have "map (\<lambda>e. unat (Index e)) L ! i = [1 ..< Suc (length L)] ! i"
    by (simp add: dense_log_def)
  with i show ?thesis by (simp del: upt_Suc)
qed

lemma dense_take_below:
  assumes "dense_log L" shows "\<forall>e\<in>set (take (below k L) L). Index e < k"
proof
  fix e assume "e \<in> set (take (below k L) L)"
  then obtain i where i: "i < below k L" "e = L ! i"
    by (auto simp: in_set_conv_nth)
  then have "i < length L" "Suc i < unat k" by (auto simp: below_def)
  with dense_log_nth [OF assms, of i] i show "Index e < k"
    by (simp add: word_less_nat_alt)
qed

lemma dense_drop_below:
  assumes "dense_log L" shows "\<forall>e\<in>set (drop (below k L) L). \<not> Index e < k"
proof
  fix e assume "e \<in> set (drop (below k L) L)"
  then obtain j where j: "j < length L - below k L" "e = L ! (below k L + j)"
    by (auto simp: in_set_conv_nth)
  define i where "i = below k L + j"
  with j have i: "below k L \<le> i" "i < length L" "e = L ! i" by auto
  then have "unat k \<le> Suc i" by (auto simp: below_def)
  with dense_log_nth [OF assms, of i] i show "\<not> Index e < k"
    by (simp add: word_less_nat_alt)
qed

lemma loop_dense:
  assumes "dense_log L"
  shows "PeerUncommittedLogEntries_loop (rev L) k [] sentinel =
     (rev (drop (below k L) L),
      if 0 < below k L then L ! (below k L - 1)
      else if L = [] then sentinel else hd L)"
proof -
  let ?m = "below k L"
  have m: "?m \<le> length L" by (simp add: below_def)
  have split: "rev L = rev (drop ?m L) @ rev (take ?m L)"
    by (metis append_take_drop_id rev_append)
  have hi: "\<forall>e\<in>set (rev (drop ?m L)). \<not> Index e < k"
    using dense_drop_below [OF assms] by simp
  have step: "PeerUncommittedLogEntries_loop (rev L) k [] sentinel =
     PeerUncommittedLogEntries_loop (rev (take ?m L)) k (rev (drop ?m L))
       (if rev (drop ?m L) = [] then sentinel else last (rev (drop ?m L)))"
    using loop_append_all [OF hi, of "rev (take ?m L)" "[]" sentinel] split by simp
  show ?thesis
  proof (cases "0 < ?m")
    case True
    then have ne: "take ?m L \<noteq> []" using m by auto
    then obtain ys where ys: "rev (take ?m L) = last (take ?m L) # ys"
      by (cases "take ?m L" rule: rev_cases) auto
    have lt: "Index (last (take ?m L)) < k"
      using dense_take_below [OF assms, of k] ne last_in_set by blast
    have "last (take ?m L) = L ! (?m - 1)"
      using ne m True by (simp add: last_conv_nth)
    with step ys lt True show ?thesis by simp
  next
    case False
    then have z: "?m = 0" by simp
    show ?thesis using step z by (cases L) (auto simp: last_rev)
  qed
qed

lemma filter_dense:
  assumes "dense_log L"
  shows "filter (\<lambda>e. k \<le> Index e) L = drop (below k L) L"
proof -
  have "filter (\<lambda>e. k \<le> Index e) (take (below k L) L @ drop (below k L) L) = drop (below k L) L"
    using dense_take_below [OF assms, of k] dense_drop_below [OF assms, of k]
    by (simp add: not_less [symmetric] del: append_take_drop_id)
  then show ?thesis by simp
qed




lemma dense_log_sorted:
  assumes "dense_log L" shows "sorted_wrt (\<lambda>a b. Index a < Index b) L"
  unfolding sorted_wrt_iff_nth_less
proof (intro allI impI)
  fix i j assume "i < j" "j < length L"
  with dense_log_nth [OF assms, of i] dense_log_nth [OF assms, of j]
  show "Index (L ! i) < Index (L ! j)" by (simp add: word_less_nat_alt)
qed

lemma dense_example_log: "dense_log example_log"
  by (simp add: dense_log_def example_log_def upt_rec)

text \<open>
  Claim C1, as the code has it. For a log \<open>L\<close> that is dense from index 1 and a peer
  with \<open>nextIndex = k\<close>, \<open>PeerUncommittedLogEntries\<close> returns as entries exactly the
  entries of \<open>L\<close> with index at least \<open>k\<close>, in ascending index order. The anchor
  \<open>prev\<close> is the entry with index \<open>k - 1\<close> when \<open>k \<ge> 2\<close> and \<open>L\<close> contains that
  index; it is the sentinel \<open>{index 0, term 0}\<close> when \<open>L\<close> is empty; and it is the
  last entry of \<open>L\<close> when \<open>L\<close> is not empty and \<open>k\<close> is above the last index plus
  one. (For \<open>k \<le> 1\<close> on a log that is not empty the statement says nothing about
  \<open>prev\<close>.)
\<close>

theorem PeerUncommittedLogEntries_range:
  assumes "dense_log L" and "ReversedLogIterator env (Group_Id grp) = rev L"
  shows "fst (PeerUncommittedLogEntries env grp peer) =
           filter (\<lambda>e. NextIndex peer \<le> Index e) L
       \<and> sorted_wrt (\<lambda>a b. Index a < Index b)
           (fst (PeerUncommittedLogEntries env grp peer))
       \<and> (\<forall>e\<in>set L. 2 \<le> NextIndex peer \<and> Index e = NextIndex peer - 1 \<longrightarrow>
             snd (PeerUncommittedLogEntries env grp peer) = e)
       \<and> (L = [] \<longrightarrow>
             snd (PeerUncommittedLogEntries env grp peer) = sentinel)
       \<and> (L \<noteq> [] \<and> length L + 1 < unat (NextIndex peer) \<longrightarrow>
             snd (PeerUncommittedLogEntries env grp peer) = last L)"
proof -
  let ?k = "NextIndex peer"
  let ?m = "below ?k L"
  let ?prev = "if 0 < ?m then L ! (?m - 1) else if L = [] then sentinel else hd L"
  have res: "PeerUncommittedLogEntries env grp peer = (drop ?m L, ?prev)"
    using loop_dense [OF assms(1), of ?k] assms(2)
    by (simp add: PeerUncommittedLogEntries_def reverse_entries_rev)
  have entries: "fst (PeerUncommittedLogEntries env grp peer) =
      filter (\<lambda>e. ?k \<le> Index e) L"
    using res filter_dense [OF assms(1), of ?k] by simp
  have asc: "sorted_wrt (\<lambda>a b. Index a < Index b)
      (fst (PeerUncommittedLogEntries env grp peer))"
    unfolding entries using dense_log_sorted [OF assms(1)] by (rule sorted_wrt_filter)
  have anchor: "snd (PeerUncommittedLogEntries env grp peer) = e"
    if "e \<in> set L" "2 \<le> ?k" "Index e = ?k - 1" for e
  proof -
    from that(1) obtain i where i: "i < length L" "e = L ! i"
      by (auto simp: in_set_conv_nth)
    have "unat (?k - 1) = unat ?k - 1"
      using that(2) by (simp add: unat_sub word_le_nat_alt)
    with dense_log_nth [OF assms(1) i(1)] i(2) that(3)
    have "Suc i = unat ?k - 1" by simp
    with i(1) have "?m = Suc i" by (simp add: below_def)
    with res i(2) show ?thesis by simp
  qed
  have empty: "snd (PeerUncommittedLogEntries env grp peer) = sentinel"
    if "L = []"
    using res that by (simp add: below_def)
  have beyond: "snd (PeerUncommittedLogEntries env grp peer) = last L"
    if "L \<noteq> []" "length L + 1 < unat ?k"
  proof -
    from that have "?m = length L" "0 < length L" by (auto simp: below_def)
    with res that(1) show ?thesis by (simp add: last_conv_nth)
  qed
  from entries asc anchor empty beyond show ?thesis by blast
qed

text \<open>
  Scenario 5 of the specification: indices 1 to 5 with terms 1, 1, 2, 2, 3 and
  \<open>nextIndex = 3\<close> give the entries 3, 4, 5 and the anchor \<open>{index 2, term 1}\<close>. With
  \<open>nextIndex = 9\<close> the anchor is the last entry. Scenario 6: on the empty log of group
  8 and \<open>nextIndex = 1\<close>, no entries and the sentinel.
\<close>

theorem PeerUncommittedLogEntries_range_witness:
  "dense_log example_log
   \<and> fst (PeerUncommittedLogEntries example_server_env example_group (example_peer 3)) =
       [\<lparr>Term = 2, Index = 3, Command = []\<rparr>, \<lparr>Term = 2, Index = 4, Command = []\<rparr>,
        \<lparr>Term = 3, Index = 5, Command = []\<rparr>]
   \<and> snd (PeerUncommittedLogEntries example_server_env example_group (example_peer 3)) =
       \<lparr>Term = 1, Index = 2, Command = []\<rparr>
   \<and> snd (PeerUncommittedLogEntries example_server_env example_group (example_peer 9)) =
       \<lparr>Term = 3, Index = 5, Command = []\<rparr>
   \<and> dense_log []
   \<and> PeerUncommittedLogEntries example_server_env (example_group\<lparr>Group_Id := 8\<rparr>)
       (example_peer 1) = ([], sentinel)"
proof -
  have it: "ReversedLogIterator example_server_env (Group_Id example_group) = rev example_log"
    by (simp add: example_server_env_def example_group_def)
  note r = PeerUncommittedLogEntries_range [OF dense_example_log it, where peer = "example_peer 3"]
  have k: "NextIndex (example_peer 3) = 3" by (simp add: example_peer_def)
  from r have "fst (PeerUncommittedLogEntries example_server_env example_group
      (example_peer 3)) = filter (\<lambda>e. 3 \<le> Index e) example_log"
    unfolding k by blast
  then have entries: "fst (PeerUncommittedLogEntries example_server_env example_group
      (example_peer 3)) =
       [\<lparr>Term = 2, Index = 3, Command = []\<rparr>, \<lparr>Term = 2, Index = 4, Command = []\<rparr>,
        \<lparr>Term = 3, Index = 5, Command = []\<rparr>]"
    by (simp add: example_log_def word_le_nat_alt)
  have mem: "\<lparr>Term = 1, Index = 2, Command = []\<rparr> \<in> set example_log"
    by (simp add: example_log_def)
  from r have "\<forall>e\<in>set example_log. 2 \<le> (3::u64) \<and> Index e = 3 - 1 \<longrightarrow>
      snd (PeerUncommittedLogEntries example_server_env example_group (example_peer 3)) = e"
    unfolding k by blast
  with mem have prev: "snd (PeerUncommittedLogEntries example_server_env example_group
      (example_peer 3)) = \<lparr>Term = 1, Index = 2, Command = []\<rparr>"
    by fastforce
  note r9 = PeerUncommittedLogEntries_range [OF dense_example_log it, where peer = "example_peer 9"]
  have beyond: "example_log \<noteq> [] \<and> length example_log + 1 < unat (NextIndex (example_peer 9))"
    by (simp add: example_log_def example_peer_def)
  with r9 have "snd (PeerUncommittedLogEntries example_server_env example_group
      (example_peer 9)) = last example_log"
    by blast
  then have last: "snd (PeerUncommittedLogEntries example_server_env example_group
      (example_peer 9)) = \<lparr>Term = 3, Index = 5, Command = []\<rparr>"
    by (simp add: example_log_def)
  have d0: "dense_log []" by (simp add: dense_log_def)
  have it0: "ReversedLogIterator example_server_env (Group_Id (example_group\<lparr>Group_Id := 8\<rparr>)) =
      rev []"
    by (simp add: example_server_env_def)
  note r0 = PeerUncommittedLogEntries_range [OF d0 it0, where peer = "example_peer 1"]
  from r0 have "fst (PeerUncommittedLogEntries example_server_env
      (example_group\<lparr>Group_Id := 8\<rparr>) (example_peer 1)) = []"
    and "snd (PeerUncommittedLogEntries example_server_env
      (example_group\<lparr>Group_Id := 8\<rparr>) (example_peer 1)) = sentinel"
    by simp_all
  then have empty: "PeerUncommittedLogEntries example_server_env
      (example_group\<lparr>Group_Id := 8\<rparr>) (example_peer 1) = ([], sentinel)"
    by (simp add: prod_eq_iff)
  from dense_example_log entries prev last d0 empty show ?thesis by blast
qed

text \<open>
  Claim C1 as stated has the sentinel as anchor whenever \<open>k < 2\<close> or \<open>L\<close> does not
  contain index \<open>k - 1\<close>. On the log of five entries, \<open>k = 9\<close> (index 8 is not in
  the log) gives the last entry as anchor, and \<open>k = 0\<close> returns every entry with the
  first entry of the log as anchor; neither is the sentinel.
\<close>

theorem PeerUncommittedLogEntries_prev_counterexample:
  "dense_log example_log
   \<and> 9 - 1 \<notin> Index ` set example_log
   \<and> snd (PeerUncommittedLogEntries example_server_env example_group (example_peer 9)) =
       \<lparr>Term = 3, Index = 5, Command = []\<rparr>
   \<and> fst (PeerUncommittedLogEntries example_server_env example_group (example_peer 0)) =
       example_log
   \<and> snd (PeerUncommittedLogEntries example_server_env example_group (example_peer 0)) =
       \<lparr>Term = 1, Index = 1, Command = []\<rparr>
   \<and> \<lparr>Term = 3, Index = 5, Command = []\<rparr> \<noteq> sentinel
   \<and> \<lparr>Term = 1, Index = 1, Command = []\<rparr> \<noteq> sentinel"
  using dense_example_log
  by (simp add: example_log_def example_peer_def example_group_def example_server_env_def
      PeerUncommittedLogEntries_def reverse_entries_rev sentinel_def word_less_nat_alt)


section \<open>The peer directory (claims C6 and C7)\<close>

text \<open>
  The loop of \<open>GetGroupPeers\<close> returns only from a state in which the iterator is not
  on a key of the prefix (or the key under it is too short to hold a peer id): the body
  never moves the iterator, so a first test that succeeds succeeds forever.
\<close>

lemma GetGroupPeers_loop_returns:
  assumes "GetGroupPeers_loop env grp keyPrefix iter peers s = Some y"
  shows "\<not> (ValidForPrefix iter keyPrefix \<and>
    BytesU64 (fst (hd iter)) (length keyPrefix) \<noteq> None)"
proof (rule GetGroupPeers_loop.raw_induct
    [where P = "\<lambda>env grp keyPrefix iter peers s y. \<not> (ValidForPrefix iter keyPrefix \<and>
      BytesU64 (fst (hd iter)) (length keyPrefix) \<noteq> None)", OF _ assms])
  fix loop :: "server_env \<Rightarrow> u64 \<Rightarrow> bytes \<Rightarrow> KV \<Rightarrow> Peer option list \<Rightarrow> BFTRaftServer \<Rightarrow>
    (Peer option list \<times> BFTRaftServer) outcome option"
  fix env grp keyPrefix iter peers s y
  assume IH: "\<And>env grp keyPrefix iter peers s y.
    loop env grp keyPrefix iter peers s = Some y \<Longrightarrow>
    \<not> (ValidForPrefix iter keyPrefix \<and> BytesU64 (fst (hd iter)) (length keyPrefix) \<noteq> None)"
  assume eq: "(if ValidForPrefix iter keyPrefix then
        (case BytesU64 (fst (hd iter)) (length keyPrefix) of
           None \<Rightarrow> Some Panic
         | Some peer_id \<Rightarrow>
             (case GetPeer env s grp peer_id of
                (peer, s') \<Rightarrow> loop env grp keyPrefix iter (peers @ [peer]) s'))
      else Some (Returns (peers, s))) = Some y"
  show "\<not> (ValidForPrefix iter keyPrefix \<and>
    BytesU64 (fst (hd iter)) (length keyPrefix) \<noteq> None)"
  proof
    assume v: "ValidForPrefix iter keyPrefix \<and>
      BytesU64 (fst (hd iter)) (length keyPrefix) \<noteq> None"
    then obtain peer_id where p: "BytesU64 (fst (hd iter)) (length keyPrefix) = Some peer_id"
      by auto
    obtain peer s' where g: "GetPeer env s grp peer_id = (peer, s')"
      by (cases "GetPeer env s grp peer_id")
    from eq v p g have "loop env grp keyPrefix iter (peers @ [peer]) s' = Some y"
      by simp
    from IH [OF this] v show False by simp
  qed
qed

lemma GetGroupPeers_loop_diverges:
  assumes "ValidForPrefix iter keyPrefix"
    and "BytesU64 (fst (hd iter)) (length keyPrefix) \<noteq> None"
  shows "GetGroupPeers_loop env grp keyPrefix iter peers s = None"
proof (cases "GetGroupPeers_loop env grp keyPrefix iter peers s")
  case None
  then show ?thesis .
next
  case (Some y)
  from GetGroupPeers_loop_returns [OF this] assms show ?thesis by simp
qed

lemma length_U64Bytes: "length (U64Bytes x) = 8"
  by (simp add: U64Bytes_def)

lemma GetGroupPeers_loop_empty:
  "\<not> ValidForPrefix iter keyPrefix \<Longrightarrow>
   GetGroupPeers_loop env grp keyPrefix iter peers s = Some (Returns (peers, s))"
  by (subst GetGroupPeers_loop.simps) simp

lemma example_key2: "ComposeKeyPrefix 7 2 @ U64Bytes 2 = [0,0,0,0,0,0,0,7,2,0,0,0,0,0,0,0,2]"
  by (simp add: ComposeKeyPrefix_def U64Bytes_def upt_rec)

lemma example_key0: "ComposeKeyPrefix 7 2 @ U64Bytes 0 = [0,0,0,0,0,0,0,7,2,0,0,0,0,0,0,0,0]"
  by (simp add: ComposeKeyPrefix_def U64Bytes_def upt_rec)

lemma example_prefix: "ComposeKeyPrefix 7 2 = [0,0,0,0,0,0,0,7,2]"
  by (simp add: ComposeKeyPrefix_def U64Bytes_def upt_rec)

lemma example_seek:
  "Seek example_db (ComposeKeyPrefix 7 2 @ U64Bytes 0) = example_db"
  unfolding example_key0 by (simp add: Seek_def example_db_def example_key2)

text \<open>
  Claim C6 says that \<open>GetGroupPeers\<close>, on a cache miss and a finite key range,
  terminates with one peer per key. On a store whose peer table of group 7 has two rows
  and with empty caches, the call does not return.
\<close>

theorem GetGroupPeers_never_returns:
  "GetGroupPeers example_server_env example_server 7 = None"
proof -
  have v: "ValidForPrefix example_db (ComposeKeyPrefix 7 2)"
    by (simp add: ValidForPrefix_def example_db_def example_key2 example_prefix)
  have b: "BytesU64 (fst (hd example_db)) (length (ComposeKeyPrefix 7 2)) \<noteq> None"
    by (simp add: example_db_def example_prefix BytesU64_def length_U64Bytes ComposeKeyPrefix_def)
  have "GetGroupPeers_loop example_server_env 7 (ComposeKeyPrefix 7 2) example_db []
      example_server = None"
    using v b by (rule GetGroupPeers_loop_diverges)
  moreover have "GroupsPeers example_server (Itoa (sint (7::u64))) = None"
    by (simp add: example_server_def)
  moreover have "GROUP_PEERS example_server_env = 2" "DB example_server = example_db"
    by (simp_all add: example_server_env_def example_server_def)
  ultimately show ?thesis
    by (simp add: GetGroupPeers_def example_seek)
qed

text \<open>
  Claim C7, as the code has it. On a cache miss, \<open>GetPeer\<close> returns absent and caches
  nothing when the row is absent; when the row is present it returns, and caches, the
  Peer that \<open>proto.Unmarshal\<close> left in the message, whether or not the call reported an
  error.
\<close>

theorem GetPeer_cache_miss:
  assumes "Peers s (Sprint_peer_key grp peer_id) = None"
  shows "(DB_Get (DB s) (ComposeKeyPrefix grp (GROUP_PEERS env) @ U64Bytes peer_id) = None \<longrightarrow>
            GetPeer env s grp peer_id = (None, s))
       \<and> (\<forall>data. DB_Get (DB s) (ComposeKeyPrefix grp (GROUP_PEERS env) @ U64Bytes peer_id) =
              Some data \<longrightarrow>
            GetPeer env s grp peer_id =
              (Some (fst (Unmarshal env data)),
               s\<lparr>Peers := (Peers s)(Sprint_peer_key grp peer_id \<mapsto> fst (Unmarshal env data))\<rparr>))"
  using assms by (simp add: GetPeer_def Let_def)

lemma example_key4: "ComposeKeyPrefix 7 2 @ U64Bytes 4 = [0,0,0,0,0,0,0,7,2,0,0,0,0,0,0,0,4]"
  by (simp add: ComposeKeyPrefix_def U64Bytes_def upt_rec)

lemma example_key6: "ComposeKeyPrefix 7 2 @ U64Bytes 6 = [0,0,0,0,0,0,0,7,2,0,0,0,0,0,0,0,6]"
  by (simp add: ComposeKeyPrefix_def U64Bytes_def upt_rec)

lemma example_value2: "U64Bytes 2 @ U64Bytes 9 @ U64Bytes 3 =
    [0,0,0,0,0,0,0,2, 0,0,0,0,0,0,0,9, 0,0,0,0,0,0,0,3]"
  by (simp add: U64Bytes_def upt_rec)

lemma example_Unmarshal_value2:
  "example_Unmarshal (U64Bytes 2 @ U64Bytes 9 @ U64Bytes 3) =
     (\<lparr>Peer_Id = 2, Peer_Host = 9, NextIndex = 3\<rparr>, False)"
  unfolding example_value2 by (simp add: example_Unmarshal_def BytesU64_def)

lemma example_Unmarshal_malformed:
  "example_Unmarshal [255] = (\<lparr>Peer_Id = 0, Peer_Host = 0, NextIndex = 0\<rparr>, True)"
  by (simp add: example_Unmarshal_def BytesU64_def)

lemma example_db_rows:
  "DB_Get example_db (ComposeKeyPrefix 7 2 @ U64Bytes 2) = Some (U64Bytes 2 @ U64Bytes 9 @ U64Bytes 3)"
  "DB_Get example_db (ComposeKeyPrefix 7 2 @ U64Bytes 4) = Some [255]"
  "DB_Get example_db (ComposeKeyPrefix 7 2 @ U64Bytes 6) = None"
  by (simp_all add: DB_Get_def example_db_def example_key2 example_key4 example_key6)

text \<open>
  On the example store, peer 6 of group 7 has no row and peer 2 has one that decodes.
\<close>

theorem GetPeer_cache_miss_witness:
  "Peers example_server (Sprint_peer_key 7 6) = None
   \<and> GetPeer example_server_env example_server 7 6 = (None, example_server)
   \<and> Peers example_server (Sprint_peer_key 7 2) = None
   \<and> fst (GetPeer example_server_env example_server 7 2) =
       Some \<lparr>Peer_Id = 2, Peer_Host = 9, NextIndex = 3\<rparr>"
proof -
  have m6: "Peers example_server (Sprint_peer_key 7 6) = None"
    and m2: "Peers example_server (Sprint_peer_key 7 2) = None"
    by (simp_all add: example_server_def)
  have e: "GROUP_PEERS example_server_env = 2" "DB example_server = example_db"
    "Unmarshal example_server_env = example_Unmarshal"
    by (simp_all add: example_server_env_def example_server_def)
  from GetPeer_cache_miss [OF m6, of example_server_env]
  have a: "GetPeer example_server_env example_server 7 6 = (None, example_server)"
    by (simp add: e example_db_rows)
  from GetPeer_cache_miss [OF m2, of example_server_env]
  have b: "fst (GetPeer example_server_env example_server 7 2) =
      Some \<lparr>Peer_Id = 2, Peer_Host = 9, NextIndex = 3\<rparr>"
    by (simp add: e example_db_rows example_Unmarshal_value2)
  from m6 a m2 b show ?thesis by simp
qed

text \<open>
  Claim C7 as stated has a stored value that fails deserialization treated as absent and
  not cached, and has absent returned whenever the row is absent. The row of peer 4 holds
  one byte, on which the decoder reports an error: \<open>GetPeer\<close> returns the zero Peer
  and caches it. With the row of peer 2 deleted and the peer still cached, \<open>GetPeer\<close>
  returns the cached peer.
\<close>

theorem GetPeer_malformed_counterexample:
  "DB_Get (DB example_server) (ComposeKeyPrefix 7 (GROUP_PEERS example_server_env) @ U64Bytes 4) =
     Some [255]
   \<and> snd (Unmarshal example_server_env [255])
   \<and> fst (GetPeer example_server_env example_server 7 4) =
       Some \<lparr>Peer_Id = 0, Peer_Host = 0, NextIndex = 0\<rparr>
   \<and> Peers (snd (GetPeer example_server_env example_server 7 4)) (Sprint_peer_key 7 4) =
       Some \<lparr>Peer_Id = 0, Peer_Host = 0, NextIndex = 0\<rparr>
   \<and> DB_Get (DB example_server_stale)
       (ComposeKeyPrefix 7 (GROUP_PEERS example_server_env) @ U64Bytes 2) = None
   \<and> fst (GetPeer example_server_env example_server_stale 7 2) = Some (example_peer 3)"
proof -
  have e: "GROUP_PEERS example_server_env = 2" "DB example_server = example_db"
    "Unmarshal example_server_env = example_Unmarshal"
    by (simp_all add: example_server_env_def example_server_def)
  have m4: "Peers example_server (Sprint_peer_key 7 4) = None"
    by (simp add: example_server_def)
  have g: "GetPeer example_server_env example_server 7 4 =
      (Some \<lparr>Peer_Id = 0, Peer_Host = 0, NextIndex = 0\<rparr>,
       example_server\<lparr>Peers := (Peers example_server)(Sprint_peer_key 7 4 \<mapsto>
         \<lparr>Peer_Id = 0, Peer_Host = 0, NextIndex = 0\<rparr>)\<rparr>)"
    using m4 by (simp add: GetPeer_def Let_def e example_db_rows example_Unmarshal_malformed)
  have st: "DB_Get (DB example_server_stale) (ComposeKeyPrefix 7 2 @ U64Bytes 2) = None"
    by (simp add: example_server_stale_def DB_Get_def)
  have gs: "fst (GetPeer example_server_env example_server_stale 7 2) = Some (example_peer 3)"
    by (simp add: GetPeer_def Let_def example_server_stale_def)
  from g st gs show ?thesis
    by (simp add: e example_db_rows example_Unmarshal_malformed)
qed

section \<open>The replication dispatcher (claim C4)\<close>

text \<open>
  The goroutine is started exactly in the branch \<open>err != nil\<close> of the pool's answer.
\<close>

lemma SendPeer_client_available:
  assumes "GetNode env (Peer_Host peer) = Some node"
    and "ClusterClients_Get env (ServerAddr node) = (client, None)"
  shows "SendPeerUncommittedLogEntries env s grp peer = NotDispatched"
  using assms by (simp add: SendPeerUncommittedLogEntries_def)

lemma SendPeer_no_client:
  assumes "GetNode env (Peer_Host peer) = Some node"
    and "ClusterClients_Get env (ServerAddr node) = (None, Some e)"
  shows "SendPeerUncommittedLogEntries env s grp peer = GoroutinePanic"
  using assms by (simp add: SendPeerUncommittedLogEntries_def split: prod.splits)

text \<open>
  Claim C4 says that the task is spawned and \<open>AppendEntries\<close> issued only when the
  pool has a client for the node's address, and that nothing is issued otherwise. With
  the node known and a client available (error nil) the function starts nothing; with
  no client and an error it starts the goroutine, which dereferences the nil client.
\<close>

theorem SendPeerUncommittedLogEntries_gate_inverted:
  "GetNode example_server_env (Peer_Host (example_peer 3)) = Some example_node
   \<and> ClusterClients_Get example_server_env (ServerAddr example_node) =
       (Some \<lparr>rpc = ServerAddr example_node\<rparr>, None)
   \<and> SendPeerUncommittedLogEntries example_server_env example_server example_group
       (example_peer 3) = NotDispatched
   \<and> ClusterClients_Get example_server_env_refused (ServerAddr example_node) =
       (None, Some ''connection refused'')
   \<and> SendPeerUncommittedLogEntries example_server_env_refused example_server example_group
       (example_peer 3) = GoroutinePanic"
proof -
  have n: "GetNode example_server_env (Peer_Host (example_peer 3)) = Some example_node"
    by (simp add: example_server_env_def example_peer_def)
  have n': "GetNode example_server_env_refused (Peer_Host (example_peer 3)) = Some example_node"
    by (simp add: example_server_env_refused_def example_server_env_def example_peer_def)
  have c: "ClusterClients_Get example_server_env (ServerAddr example_node) =
      (Some \<lparr>rpc = ServerAddr example_node\<rparr>, None)"
    by (simp add: example_server_env_def)
  have c': "ClusterClients_Get example_server_env_refused (ServerAddr example_node) =
      (None, Some ''connection refused'')"
    by (simp add: example_server_env_refused_def)
  from n c c' SendPeer_client_available [OF n c] SendPeer_no_client [OF n' c']
  show ?thesis by simp
qed


section \<open>The command executor (claims C2, C8 and C10)\<close>

text \<open>
  The collector returns exactly when the channel delivers as many results as it has
  receives to do; the map it builds holds, under each hash, the last collected result
  with that hash.
\<close>

lemma collector_blocked:
  "length inbox < n \<Longrightarrow> collector H n inbox rr rh = None"
  by (induction H n inbox rr rh rule: collector.induct) (auto simp: Let_def)

lemma collector_done:
  "n \<le> length inbox \<Longrightarrow>
   collector H n inbox rr rh =
     Some (rr ++ map_of (rev (map (\<lambda>res. (H res, res)) (take n inbox))),
           rh @ map H (take n inbox))"
proof (induction inbox arbitrary: n rr rh)
  case Nil
  then show ?case by simp
next
  case (Cons res inbox)
  show ?case
  proof (cases n)
    case 0
    then show ?thesis by simp
  next
    case (Suc m)
    with Cons.prems have m: "m \<le> length inbox" by simp
    have upd: "rr(H res \<mapsto> res) ++ map_of (rev (map (\<lambda>res. (H res, res)) (take m inbox))) =
        rr ++ (map_of (rev (map (\<lambda>res. (H res, res)) (take m inbox)) @ [(H res, res)]))"
      by (simp add: map_add_def fun_eq_iff split: option.splits)
    have "collector H (Suc m) (res # inbox) rr rh =
        collector H m inbox (rr(H res \<mapsto> res)) (rh @ [H res])"
      by (simp add: Let_def)
    also have "\<dots> = Some (rr(H res \<mapsto> res) ++
        map_of (rev (map (\<lambda>res. (H res, res)) (take m inbox))),
        (rh @ [H res]) @ map H (take m inbox))"
      by (rule Cons.IH [OF m])
    finally show ?thesis unfolding Suc by (simp only: upd take_Suc_Cons list.map rev.simps append_assoc append.simps)
  qed
qed

lemma map_of_rev_last_with_hash:
  "(case map_of (rev (map (\<lambda>res. (H res, res)) collected)) h of None \<Rightarrow> [] | Some d \<Rightarrow> d) =
   last_with_hash H collected h"
proof -
  have "map_of (map (\<lambda>res. (H res, res)) xs) h =
      (case filter (\<lambda>res. H res = h) xs of [] \<Rightarrow> None | res # _ \<Rightarrow> Some res)" for xs
    by (induction xs) auto
  from this [of "rev collected"] show ?thesis
    by (simp add: last_with_hash_def rev_map split: list.splits)
qed

text \<open>
  \<open>ExecCommand\<close> after the leader is resolved and \<open>GetGroupHosts\<close> has returned.
\<close>

lemma ExecCommand_unfold:
  assumes "GetGroupLeader env brc groupId = Returns (Some leader, brc1)"
    and "GetGroupHosts env (registered brc1 groupId) groupId = Returns (hostsOpt, brc4)"
  shows "ExecCommand env inbox brc groupId funcId arg =
    (let reqId = Counter brc1 + 1;
         cmdReq0 = \<lparr>Cmd_Group = groupId, ClientId = Client_Id brc1, RequestId = reqId,
                    FuncId = funcId, Arg = arg, Cmd_Signature = []\<rparr>;
         cmdReq = cmdReq0\<lparr>Cmd_Signature :=
                    Sign env (PrivateKey brc1) (ExecCommandSignData env cmdReq0)\<rparr>;
         brc5 = brc4\<lparr>CmdResChan := deregister (CmdResChan brc4) groupId reqId\<rparr>;
         started = [(leader, cmdReq)]
     in case hostsOpt of
          None \<Rightarrow> deferred_close inbox (Inl ''cannot get group hosts'', brc5, started)
        | Some hosts \<Rightarrow>
            if ExpectedPlayers env (int (length hosts)) < 0 then Panic
            else (case collector (HashData env)
                         (nat (ExpectedPlayers env (int (length hosts)))) inbox Map.empty [] of
                    None \<Rightarrow> Returns (Inl ''does not receive enough response'', brc5, started)
                  | Some (responseReceived, responseHashes) \<Rightarrow>
                      deferred_close (drop (nat (ExpectedPlayers env (int (length hosts)))) inbox)
                        (Inr (case responseReceived (PickMajority env responseHashes) of
                                None \<Rightarrow> [] | Some d \<Rightarrow> d), brc5, started)))"
  using assms unfolding ExecCommand_def registered_def
  by (cases hostsOpt) (simp_all add: Let_def cong: option.case_cong)

lemma ExecCommand_leader_panic:
  "GetGroupLeader env brc groupId = Panic \<Longrightarrow>
   ExecCommand env inbox brc groupId funcId arg = Panic"
  by (simp add: ExecCommand_def)

lemma ExecCommand_no_leader:
  "GetGroupLeader env brc groupId = Returns (None, brc1) \<Longrightarrow>
   ExecCommand env inbox brc groupId funcId arg = Returns (Inl ''cannot found leader'', brc1, [])"
  by (simp add: ExecCommand_def)

lemma ExecCommand_hosts_panic:
  "GetGroupLeader env brc groupId = Returns (Some leader, brc1) \<Longrightarrow>
   GetGroupHosts env (registered brc1 groupId) groupId = Panic \<Longrightarrow>
   ExecCommand env inbox brc groupId funcId arg = Panic"
  by (simp add: ExecCommand_def registered_def Let_def)

text \<open>
  Claim C8. When \<open>ExecCommand\<close> has resolved a leader and a host list, and fewer
  than \<open>ExpectedPlayers(len(hosts))\<close> results arrive in the request's channel before
  the ten-second timer fires, it returns the error "does not receive enough response"
  (the specification's Timeout) and no result bytes. The host list need not be assumed
  non-empty.
\<close>

theorem ExecCommand_timeout:
  assumes "GetGroupLeader env brc groupId = Returns (Some leader, brc1)"
    and "GetGroupHosts env (registered brc1 groupId) groupId = Returns (Some hosts, brc4)"
    and "int (length inbox) < ExpectedPlayers env (int (length hosts))"
  shows "\<exists>brc' started. ExecCommand env inbox brc groupId funcId arg =
           Returns (Inl ''does not receive enough response'', brc', started)"
proof -
  from assms(3) have pos: "\<not> ExpectedPlayers env (int (length hosts)) < 0" by simp
  from assms(3) have "length inbox < nat (ExpectedPlayers env (int (length hosts)))"
    by simp
  then have "collector (HashData env) (nat (ExpectedPlayers env (int (length hosts))))
      inbox Map.empty [] = None"
    by (rule collector_blocked)
  with pos show ?thesis
    by (simp add: ExecCommand_unfold [OF assms(1,2)] Let_def)
qed

text \<open>
  On the return for absent hosts with a result already offered on the channel (the
  leader has answered), the deferred close makes the blocked sender panic.
\<close>

lemma ExecCommand_no_hosts_pending_sender:
  assumes "GetGroupLeader env brc groupId = Returns (Some leader, brc1)"
    and "GetGroupHosts env (registered brc1 groupId) groupId = Returns (None, brc4)"
    and "inbox \<noteq> []"
  shows "ExecCommand env inbox brc groupId funcId arg = Panic"
  using assms(3) by (simp add: ExecCommand_unfold [OF assms(1,2)] Let_def deferred_close_def)

text \<open>
  Claim C10. The goroutine that sends the signed command to the leader is started
  before the host list is looked at: whenever the leader is resolved,
  \<open>GetGroupHosts\<close> returns absent and no result has been offered on the request's
  channel (no sender is blocked on it when the deferred function closes it),
  \<open>ExecCommand\<close> returns the error "cannot get group hosts" (the specification's
  NoHosts) and the call to the leader has been started all the same, with the command
  of the group, the client, the new request id, the function id and the argument,
  signed with the client's private key over the sign data of that command.
\<close>

theorem ExecCommand_no_hosts_after_start:
  assumes "GetGroupLeader env brc groupId = Returns (Some leader, brc1)"
    and "GetGroupHosts env (registered brc1 groupId) groupId = Returns (None, brc4)"
    and "inbox = []"
  shows "\<exists>brc' req. ExecCommand env inbox brc groupId funcId arg =
           Returns (Inl ''cannot get group hosts'', brc', [(leader, req)])
         \<and> Cmd_Group req = groupId \<and> ClientId req = Client_Id brc1
         \<and> RequestId req = Counter brc1 + 1 \<and> FuncId req = funcId \<and> Arg req = arg
         \<and> Cmd_Signature req =
             Sign env (PrivateKey brc1) (ExecCommandSignData env (req\<lparr>Cmd_Signature := []\<rparr>))"
  using assms(3) by (simp add: ExecCommand_unfold [OF assms(1,2)] Let_def deferred_close_def)

text \<open>
  Claim C2, as the code has it. \<open>ExecCommand\<close> returns a result only if the leader
  and the hosts are resolved and \<open>ExpectedPlayers(len(hosts))\<close> results were collected
  from the channel; the result is the last collected one whose hash is the hash that
  \<open>PickMajority\<close> chose among the hashes of the collected results, and empty when
  none has that hash. Nothing counts how many collected results are hash-equal to the
  returned bytes.
\<close>

theorem ExecCommand_result:
  assumes "ExecCommand env inbox brc groupId funcId arg = Returns (Inr data, brc', started)"
  shows "\<exists>leader brc1 hosts brc4.
           GetGroupLeader env brc groupId = Returns (Some leader, brc1)
         \<and> GetGroupHosts env (registered brc1 groupId) groupId = Returns (Some hosts, brc4)
         \<and> 0 \<le> ExpectedPlayers env (int (length hosts))
         \<and> ExpectedPlayers env (int (length hosts)) \<le> int (length inbox)
         \<and> data = last_with_hash (HashData env)
                    (take (nat (ExpectedPlayers env (int (length hosts)))) inbox)
                    (PickMajority env (map (HashData env)
                       (take (nat (ExpectedPlayers env (int (length hosts)))) inbox)))"
proof (cases "GetGroupLeader env brc groupId")
  case Panic
  with assms show ?thesis by (simp add: ExecCommand_leader_panic)
next
  case (Returns lr)
  obtain leaderOpt brc1 where lr: "lr = (leaderOpt, brc1)" by (cases lr)
  show ?thesis
  proof (cases leaderOpt)
    case None
    with Returns lr assms show ?thesis by (simp add: ExecCommand_no_leader)
  next
    case (Some leader)
    with Returns lr have L: "GetGroupLeader env brc groupId = Returns (Some leader, brc1)"
      by simp
    show ?thesis
    proof (cases "GetGroupHosts env (registered brc1 groupId) groupId")
      case Panic
      with L assms show ?thesis by (simp add: ExecCommand_hosts_panic)
    next
      case (Returns hr)
      obtain hostsOpt brc4 where hr: "hr = (hostsOpt, brc4)" by (cases hr)
      with Returns have Hs: "GetGroupHosts env (registered brc1 groupId) groupId =
          Returns (hostsOpt, brc4)" by simp
      note unf = ExecCommand_unfold [OF L Hs, of inbox funcId arg]
      show ?thesis
      proof (cases hostsOpt)
        case None
        with unf assms show ?thesis
          by (simp add: Let_def deferred_close_def split: if_splits)
      next
        case (Some hosts)
        let ?e = "ExpectedPlayers env (int (length hosts))"
        from unf assms Some have nonneg: "\<not> ?e < 0"
          by (auto simp: Let_def split: if_splits)
        have enough: "\<not> length inbox < nat ?e"
        proof
          assume "length inbox < nat ?e"
          then have "collector (HashData env) (nat ?e) inbox Map.empty [] = None"
            by (rule collector_blocked)
          with unf assms Some nonneg show False by (simp add: Let_def)
        qed
        then have "nat ?e \<le> length inbox" by simp
        from collector_done [OF this, of "HashData env" Map.empty "[]"]
        have c: "collector (HashData env) (nat ?e) inbox Map.empty [] =
          Some (map_of (rev (map (\<lambda>res. (HashData env res, res)) (take (nat ?e) inbox))),
                map (HashData env) (take (nat ?e) inbox))"
          by simp
        from unf assms Some nonneg c
        have "data = (case map_of (rev (map (\<lambda>res. (HashData env res, res))
            (take (nat ?e) inbox)))
            (PickMajority env (map (HashData env) (take (nat ?e) inbox))) of
            None \<Rightarrow> [] | Some d \<Rightarrow> d)"
          by (simp add: Let_def deferred_close_def split: if_splits)
        then have d: "data = last_with_hash (HashData env) (take (nat ?e) inbox)
            (PickMajority env (map (HashData env) (take (nat ?e) inbox)))"
          by (simp only: map_of_rev_last_with_hash)
        from nonneg enough have "0 \<le> ?e" "?e \<le> int (length inbox)" by auto
        with L Hs Some d show ?thesis by blast
      qed
    qed
  qed
qed

lemma example_keys: "Itoa 7 = ''7''" "Itoa 8 = ''8''"
  by (simp_all add: Itoa_def dec.simps)

lemma example_alpha: "AlphaRPCs example_client = [RPCClient ''alpha1'', RPCClient ''alpha2'']"
  by (simp add: example_client_def)

lemma example_leader_query:
  "g = 7 \<or> g = 8 \<Longrightarrow> GroupLeader_query example_client_env g c =
     Returns (Some (example_host 1 ''h1''), map of_char ''h1'')"
  by (auto simp: GroupLeader_query_def example_client_env_def example_host_def)

lemma majority_two_agree:
  assumes "f c1 = Returns (Some v, b)" "f c2 = Returns (Some v, b)" "b \<noteq> []"
  shows "MajorityResponse H [c1, c2] f = Returns (Some v)"
  using assms by (simp add: MajorityResponse_def majority_value_def tally_def)

lemma majority_all_abstain:
  assumes "f c1 = Returns (v1, [])" "f c2 = Returns (v2, [])"
  shows "MajorityResponse H [c1, c2] f = Returns None"
  using assms by (simp add: MajorityResponse_def majority_value_def tally_def)

lemma example_GetGroupLeader:
  assumes "g = 7 \<or> g = 8" "GroupLeader brc (Itoa (sint g)) = None"
    "AlphaRPCs brc = [RPCClient ''alpha1'', RPCClient ''alpha2'']"
  shows "GetGroupLeader example_client_env brc g =
     Returns (Some (RPCClient ''h1''),
       brc\<lparr>GroupLeader := (GroupLeader brc)(Itoa (sint g) \<mapsto> RPCClient ''h1'')\<rparr>)"
proof -
  have m: "MajorityResponse (HashData example_client_env) (AlphaRPCs brc)
      (GroupLeader_query example_client_env g) = Returns (Some (example_host 1 ''h1''))"
    unfolding assms(3)
    by (rule majority_two_agree [where b = "map of_char ''h1''"])
       (simp_all add: example_leader_query [OF assms(1)])
  have r: "GetClusterRPC example_client_env (ServerAddr (example_host 1 ''h1'')) =
      Some (RPCClient ''h1'')"
    by (simp add: example_client_env_def example_host_def)
  show ?thesis using assms(2) by (simp add: GetGroupLeader_def m r)
qed

lemma example_GetGroupHosts_7:
  assumes "GroupHosts brc ''7'' = None"
    "AlphaRPCs brc = [RPCClient ''alpha1'', RPCClient ''alpha2'']"
  shows "GetGroupHosts example_client_env brc 7 =
     Returns (Some example_hosts, brc\<lparr>GroupHosts := (GroupHosts brc)(''7'' \<mapsto> example_hosts)\<rparr>)"
proof -
  have q: "GroupHosts_query example_client_env 7 c =
      Returns (Some example_hosts, map of_char ''h1h2h3h4'')" for c
    by (simp add: GroupHosts_query_def example_client_env_def example_hosts_def
        example_host_def)
  have m: "MajorityResponse (HashData example_client_env) (AlphaRPCs brc)
      (GroupHosts_query example_client_env 7) = Returns (Some example_hosts)"
    unfolding assms(2)
    by (rule majority_two_agree [where b = "map of_char ''h1h2h3h4''"]) (simp_all add: q)
  show ?thesis using assms(1) by (simp add: GetGroupHosts_def m example_keys)
qed

lemma example_GetGroupHosts_8:
  assumes "GroupHosts brc ''8'' = None"
    "AlphaRPCs brc = [RPCClient ''alpha1'', RPCClient ''alpha2'']"
  shows "GetGroupHosts example_client_env brc 8 = Returns (None, brc)"
proof -
  have q: "GroupHosts_query example_client_env 8 c = Returns (None, [])" for c
    by (simp add: GroupHosts_query_def example_client_env_def)
  have m: "MajorityResponse (HashData example_client_env) (AlphaRPCs brc)
      (GroupHosts_query example_client_env 8) = Returns None"
    unfolding assms(2) by (rule majority_all_abstain) (simp_all add: q)
  show ?thesis using assms(1) by (simp add: GetGroupHosts_def m example_keys)
qed

lemma example_leader_7:
  "GetGroupLeader example_client_env example_client 7 =
     Returns (Some (RPCClient ''h1''), example_client_leader ''7'')"
  using example_GetGroupLeader [of 7 example_client]
  by (simp add: example_keys example_client_leader_def example_client_def)

lemma example_leader_8:
  "GetGroupLeader example_client_env example_client 8 =
     Returns (Some (RPCClient ''h1''), example_client_leader ''8'')"
  using example_GetGroupLeader [of 8 example_client]
  by (simp add: example_keys example_client_leader_def example_client_def)

lemma example_hosts_7:
  "GetGroupHosts example_client_env (registered (example_client_leader ''7'') 7) 7 =
     Returns (Some example_hosts,
       (registered (example_client_leader ''7'') 7)\<lparr>GroupHosts := [''7'' \<mapsto> example_hosts]\<rparr>)"
  using example_GetGroupHosts_7 [of "registered (example_client_leader ''7'') 7"]
  by (simp add: registered_def example_client_leader_def example_client_def)

lemma example_hosts_8:
  "GetGroupHosts example_client_env (registered (example_client_leader ''8'') 8) 8 =
     Returns (None, registered (example_client_leader ''8'') 8)"
  using example_GetGroupHosts_8 [of "registered (example_client_leader ''8'') 8"]
  by (simp add: registered_def example_client_leader_def example_client_def)

lemma example_expected: "ExpectedPlayers example_client_env (int (length example_hosts)) = 3"
  by (simp add: example_client_env_def example_ExpectedPlayers_def example_hosts_def)

text \<open>
  Scenario 4 of the specification: four hosts, one result in the channel.
\<close>

theorem ExecCommand_timeout_witness:
  "returned (GetGroupLeader example_client_env example_client 7) =
     Some (Some (RPCClient ''h1''))
   \<and> returned (GetGroupHosts example_client_env (registered (example_client_leader ''7'') 7) 7) =
       Some (Some example_hosts)
   \<and> int (length [ [1, 2 :: byte] ]) <
       ExpectedPlayers example_client_env (int (length example_hosts))
   \<and> returned (ExecCommand example_client_env [ [1, 2] ] example_client 7 42 [170]) =
       Some (Inl ''does not receive enough response'')"
proof -
  have few: "int (length [ [1, 2 :: byte] ]) <
      ExpectedPlayers example_client_env (int (length example_hosts))"
    by (simp add: example_expected)
  from ExecCommand_timeout [OF example_leader_7 example_hosts_7 few, of 42 "[170]"]
  have "returned (ExecCommand example_client_env [ [1, 2] ] example_client 7 42 [170]) =
       Some (Inl ''does not receive enough response'')"
    by auto
  with few show ?thesis by (simp add: example_leader_7 example_hosts_7)
qed

text \<open>
  Group 8 of the example network: the alpha nodes name the leader and fail the
  \<open>GroupHosts\<close> call; nothing is offered on the channel. The request that went to the
  leader carries the signature of the example's \<open>Sign\<close>: the key followed by the sign
  data of group 8, client 5, request 1, function 42 and the argument.
\<close>

theorem ExecCommand_no_hosts_after_start_witness:
  "returned (GetGroupLeader example_client_env example_client 8) =
     Some (Some (RPCClient ''h1''))
   \<and> returned (GetGroupHosts example_client_env (registered (example_client_leader ''8'') 8) 8) =
       Some None
   \<and> returned (ExecCommand example_client_env [] example_client 8 42 [170]) =
       Some (Inl ''cannot get group hosts'')
   \<and> map fst (started_calls (ExecCommand example_client_env [] example_client 8 42 [170])) =
       [RPCClient ''h1'']
   \<and> map Cmd_Group (map snd
         (started_calls (ExecCommand example_client_env [] example_client 8 42 [170]))) = [8]
   \<and> map FuncId (map snd
         (started_calls (ExecCommand example_client_env [] example_client 8 42 [170]))) = [42]
   \<and> map Arg (map snd
         (started_calls (ExecCommand example_client_env [] example_client 8 42 [170]))) =
       [ [170] ]
   \<and> map Cmd_Signature (map snd
         (started_calls (ExecCommand example_client_env [] example_client 8 42 [170]))) =
       [ [1, 0, 0, 0, 0, 0, 0, 0, 8, 0, 0, 0, 0, 0, 0, 0, 5, 0, 0, 0, 0, 0, 0, 0, 1,
          0, 0, 0, 0, 0, 0, 0, 42, 170] ]"
proof -
  from ExecCommand_no_hosts_after_start [OF example_leader_8 example_hosts_8 refl, of 42 "[170]"]
  obtain brc' req where
    e: "ExecCommand example_client_env [] example_client 8 42 [170] =
          Returns (Inl ''cannot get group hosts'', brc', [(RPCClient ''h1'', req)])" and
    f: "Cmd_Group req = 8" "ClientId req = Client_Id (example_client_leader ''8'')"
       "RequestId req = Counter (example_client_leader ''8'') + 1" "FuncId req = 42"
       "Arg req = [170]" and
    g: "Cmd_Signature req =
          Sign example_client_env (PrivateKey (example_client_leader ''8''))
            (ExecCommandSignData example_client_env (req\<lparr>Cmd_Signature := []\<rparr>))"
    by blast
  from g f have "Cmd_Signature req =
      [1, 0, 0, 0, 0, 0, 0, 0, 8, 0, 0, 0, 0, 0, 0, 0, 5, 0, 0, 0, 0, 0, 0, 0, 1,
       0, 0, 0, 0, 0, 0, 0, 42, 170]"
    by (simp add: example_client_env_def example_client_leader_def example_client_def
        U64Bytes_def upt_rec)
  with e f show ?thesis by (simp add: example_leader_8 example_hosts_8)
qed

lemma example_hashes_differ: "example_HashData [1, 2] \<noteq> example_HashData [153]"
  by (simp add: example_HashData_def)

lemma example_PickMajority_two_of_three:
  "a \<noteq> b \<Longrightarrow> example_PickMajority [a, a, b] = a"
  by (simp add: example_PickMajority_def)

lemma three_collected_not_hash_equal:
  "H a \<noteq> H b \<Longrightarrow> hash_equal_count H [a, a, b] data < 3"
  by (cases "H a = H data") (auto simp: hash_equal_count_def)

lemma example_exec_returns:
  "returned (ExecCommand example_client_env [ [1, 2], [1, 2], [153] ] example_client 7 42
      [170]) = Some (Inr [1, 2])"
proof -
  have H: "HashData example_client_env = example_HashData"
    "PickMajority example_client_env = example_PickMajority"
    by (simp_all add: example_client_env_def)
  have c: "collector example_HashData 3 [ [1, 2], [1, 2], [153] ] Map.empty [] =
      Some (map_of (rev (map (\<lambda>res. (example_HashData res, res)) [ [1, 2], [1, 2], [153] ])),
            map example_HashData [ [1, 2], [1, 2], [153] ])"
    using collector_done [of 3 "[ [1, 2], [1, 2], [153] ]" example_HashData Map.empty "[]"]
    by simp
  show ?thesis
    using example_hashes_differ
    by (simp add: ExecCommand_unfold [OF example_leader_7 example_hosts_7] Let_def
        example_expected H c example_PickMajority_two_of_three deferred_close_def)
qed

text \<open>
  Claim C2 as stated asks for at least \<open>ExpectedPlayers(len(hosts))\<close> collected
  responses hash-equal to the returned bytes. With four hosts (three expected) and the
  collected results \<open>[1,2]\<close>, \<open>[1,2]\<close>, \<open>[153]\<close>, the call returns \<open>[1,2]\<close>, to
  which two of the collected results are hash-equal.
\<close>

theorem ExecCommand_quorum_counterexample:
  "returned (GetGroupHosts example_client_env example_client 7) = Some (Some example_hosts)
   \<and> ExpectedPlayers example_client_env (int (length example_hosts)) = 3
   \<and> returned (ExecCommand example_client_env [ [1, 2], [1, 2], [153] ] example_client 7 42
        [170]) = Some (Inr [1, 2])
   \<and> hash_equal_count (HashData example_client_env) [ [1, 2], [1, 2], [153] ] [1, 2] = 2"
proof -
  have h: "returned (GetGroupHosts example_client_env example_client 7) =
      Some (Some example_hosts)"
    using example_GetGroupHosts_7 [of example_client] by (simp add: example_client_def)
  have H: "HashData example_client_env = example_HashData"
    "PickMajority example_client_env = example_PickMajority"
    by (simp_all add: example_client_env_def)
  note r = example_exec_returns
  have n: "hash_equal_count (HashData example_client_env) [ [1, 2], [1, 2], [153] ] [1, 2] = 2"
    using example_hashes_differ by (simp add: hash_equal_count_def H)
  from h example_expected r n show ?thesis by simp
qed

text \<open>
  The same call, as an instance of the theorem.
\<close>

theorem ExecCommand_result_witness:
  "returned (ExecCommand example_client_env [ [1, 2], [1, 2], [153] ] example_client 7 42
        [170]) = Some (Inr [1, 2])
   \<and> (3::int) \<le> int (length [ [1, 2], [1, 2], [153 :: byte] ])
   \<and> [1, 2] = last_with_hash (HashData example_client_env) [ [1, 2], [1, 2], [153] ]
        (PickMajority example_client_env
           (map (HashData example_client_env) [ [1, 2], [1, 2], [153] ]))"
proof -
  have r: "returned (ExecCommand example_client_env [ [1, 2], [1, 2], [153] ] example_client 7 42
      [170]) = Some (Inr [1, 2])"
    by (rule example_exec_returns)
  then obtain brc' started where
    "ExecCommand example_client_env [ [1, 2], [1, 2], [153] ] example_client 7 42 [170] =
       Returns (Inr [1, 2], brc', started)"
    by (cases "ExecCommand example_client_env [ [1, 2], [1, 2], [153] ] example_client 7 42 [170]")
       auto
  from ExecCommand_result [OF this]
  obtain leader brc1 hosts brc4 where
    L: "GetGroupLeader example_client_env example_client 7 = Returns (Some leader, brc1)" and
    Hs: "GetGroupHosts example_client_env (registered brc1 7) 7 = Returns (Some hosts, brc4)" and
    e: "ExpectedPlayers example_client_env (int (length hosts)) \<le>
          int (length [ [1, 2], [1, 2], [153 :: byte] ])" and
    d: "[1, 2] = last_with_hash (HashData example_client_env)
          (take (nat (ExpectedPlayers example_client_env (int (length hosts))))
             [ [1, 2], [1, 2], [153] ])
          (PickMajority example_client_env (map (HashData example_client_env)
             (take (nat (ExpectedPlayers example_client_env (int (length hosts))))
                [ [1, 2], [1, 2], [153] ])))"
    by blast
  from L example_leader_7 have "brc1 = example_client_leader ''7''" by simp
  with Hs example_hosts_7 have "hosts = example_hosts" by simp
  with e d r show ?thesis by (simp add: example_expected)
qed

section \<open>The quorum query\<close>

text \<open>
  A value that \<open>MajorityResponse\<close> returns was returned by one of the clients with
  canonical bytes that are not empty, and more than half of the clients returned
  canonical bytes of the same hash; of the same bytes, when the hash does not collide on
  the canonical forms returned.
\<close>

lemma collect_responses_Returns:
  "collect_responses outs = Returns rs \<Longrightarrow> outs = map Returns rs"
proof (induction outs arbitrary: rs)
  case Nil
  then show ?case by simp
next
  case (Cons out outs)
  then show ?case
    by (cases out; cases "collect_responses outs") auto
qed

lemma responses_of_clients:
  assumes "map f clients = map Returns responses"
  shows "length responses = length clients"
    and "tally H responses b = length (supporters H clients f b)"
    and "list_ex (\<lambda>c. case f c of Panic \<Rightarrow> False | Returns r \<Rightarrow> P r) clients \<longleftrightarrow>
         (\<exists>r\<in>set responses. P r)"
    and "canonical_forms clients f = map snd responses"
    and "length (filter (\<lambda>r. snd r = b) responses) = length (identical clients f b)"
  using assms
proof (induction clients arbitrary: responses)
  case Nil
  {
    case 1 then show ?case by simp
  next
    case 2 then show ?case by (simp add: tally_def supporters_def)
  next
    case 3 then show ?case by simp
  next
    case 4 then show ?case by (simp add: canonical_forms_def)
  next
    case 5 then show ?case by (simp add: identical_def)
  }
next
  case (Cons c clients)
  {
    case 1
    then obtain r rs where rs: "responses = r # rs" "f c = Returns r"
      "map f clients = map Returns rs" by (cases responses) auto
    with Cons.IH(1) [OF rs(3)] show ?case by simp
  next
    case 2
    then obtain r rs where rs: "responses = r # rs" "f c = Returns r"
      "map f clients = map Returns rs" by (cases responses) auto
    with Cons.IH(2) [OF rs(3)] show ?case by (simp add: tally_def supporters_def)
  next
    case 3
    then obtain r rs where rs: "responses = r # rs" "f c = Returns r"
      "map f clients = map Returns rs" by (cases responses) auto
    with Cons.IH(3) [OF rs(3)] show ?case by simp
  next
    case 4
    then obtain r rs where rs: "responses = r # rs" "f c = Returns r"
      "map f clients = map Returns rs" by (cases responses) auto
    with Cons.IH(4) [OF rs(3)] show ?case by (simp add: canonical_forms_def)
  next
    case 5
    then obtain r rs where rs: "responses = r # rs" "f c = Returns r"
      "map f clients = map Returns rs" by (cases responses) auto
    with Cons.IH(5) [OF rs(3)] show ?case by (simp add: identical_def)
  }
qed

lemma majority_value_Some:
  assumes "majority_value H responses = Some v"
  shows "\<exists>r\<in>set responses. fst r = Some v \<and> snd r \<noteq> [] \<and>
           length responses < 2 * tally H responses (snd r)"
proof -
  let ?P = "\<lambda>r. snd r \<noteq> [] \<and> length responses < 2 * tally H responses (snd r)"
  from assms obtain r rs where f: "filter ?P responses = r # rs" and v: "fst r = Some v"
    by (auto simp: majority_value_def split: list.splits)
  from f have "r \<in> set (filter ?P responses)" by simp
  then have "r \<in> set responses" "?P r" by auto
  with v show ?thesis by blast
qed

lemma MajorityResponse_accepted:
  assumes "MajorityResponse H clients f = Returns (Some v)"
  shows "accepted_by_quorum H clients f v"
proof -
  from assms obtain responses where c: "collect_responses (map f clients) = Returns responses"
    and m: "majority_value H responses = Some v"
    by (auto simp: MajorityResponse_def split: outcome.splits)
  note rc = responses_of_clients [OF collect_responses_Returns [OF c] ]
  from majority_value_Some [OF m]
  have "\<exists>r\<in>set responses. fst r = Some v \<and> snd r \<noteq> [] \<and>
      length clients < 2 * length (supporters H clients f (snd r))"
    by (simp add: rc(1) rc(2))
  then show ?thesis
    unfolding accepted_by_quorum_def
    by (simp add: rc(3) [where P = "\<lambda>r. fst r = Some v \<and> snd r \<noteq> [] \<and>
      length clients < 2 * length (supporters H clients f (snd r))"])
qed

lemma in_canonical_forms:
  "c \<in> set clients \<Longrightarrow> f c = Returns (v, b) \<Longrightarrow> b \<in> set (canonical_forms clients f)"
  by (auto simp: canonical_forms_def intro!: bexI [of _ c])

lemma accepted_by_quorumE:
  assumes "accepted_by_quorum H clients f v"
  obtains c b where "c \<in> set clients" "f c = Returns (Some v, b)" "b \<noteq> []"
    "length clients < 2 * length (supporters H clients f b)"
proof -
  from assms obtain c where c: "c \<in> set clients"
    "case f c of Panic \<Rightarrow> False | Returns r \<Rightarrow> fst r = Some v \<and> snd r \<noteq> [] \<and>
       length clients < 2 * length (supporters H clients f (snd r))"
    unfolding accepted_by_quorum_def list_ex_iff by blast
  show ?thesis
  proof (cases "f c")
    case Panic
    with c(2) show ?thesis by simp
  next
    case (Returns r)
    with c(2) have "f c = Returns (Some v, snd r)" "snd r \<noteq> []"
      "length clients < 2 * length (supporters H clients f (snd r))"
      by (auto simp: prod_eq_iff)
    with c(1) that show ?thesis by blast
  qed
qed

lemma supporters_identical:
  assumes "inj_on H (set (canonical_forms clients f))"
    and "b \<in> set (canonical_forms clients f)" and "b \<noteq> []"
  shows "supporters H clients f b = identical clients f b"
  unfolding supporters_def identical_def
proof (rule filter_cong [OF refl])
  fix c assume c: "c \<in> set clients"
  show "(case f c of Panic \<Rightarrow> False | Returns r \<Rightarrow> snd r \<noteq> [] \<and> H (snd r) = H b) =
        (case f c of Panic \<Rightarrow> False | Returns r \<Rightarrow> snd r = b)"
  proof (cases "f c")
    case Panic
    then show ?thesis by simp
  next
    case (Returns r)
    with c have "snd r \<in> set (canonical_forms clients f)"
      using in_canonical_forms [of c clients f "fst r" "snd r"] by simp
    with assms have "H (snd r) = H b \<longleftrightarrow> snd r = b"
      by (auto dest: inj_onD)
    with Returns assms(3) show ?thesis by auto
  qed
qed

lemma accepted_identical_of_quorum:
  assumes "accepted_by_quorum H clients f v"
    and "inj_on H (set (canonical_forms clients f))"
  shows "accepted_identical clients f v"
proof -
  from assms(1) obtain c b where c: "c \<in> set clients" "f c = Returns (Some v, b)"
    "b \<noteq> []" "length clients < 2 * length (supporters H clients f b)"
    by (rule accepted_by_quorumE)
  from c(1,2) have "b \<in> set (canonical_forms clients f)"
    using in_canonical_forms [of c clients f "Some v" b] by simp
  from supporters_identical [OF assms(2) this c(3)] c(4)
  have "length clients < 2 * length (identical clients f b)" by simp
  with c(1,2,3) show ?thesis
    unfolding accepted_identical_def list_ex_iff by force
qed

section \<open>The client caches (claim C3)\<close>

lemma GetGroupHosts_no_quorum:
  assumes "MajorityResponse (HashData env) (AlphaRPCs brc) (GroupHosts_query env g) =
    Returns None"
  shows "GetGroupHosts env brc g = Returns (GroupHosts brc (Itoa (sint g)), brc)"
  using assms by (simp add: GetGroupHosts_def Let_def split: option.splits)

lemma GetGroupLeader_no_quorum:
  assumes "MajorityResponse (HashData env) (AlphaRPCs brc) (GroupLeader_query env g) =
    Returns None"
  shows "GetGroupLeader env brc g = Returns (GroupLeader brc (Itoa (sint g)), brc)"
  using assms by (simp add: GetGroupLeader_def Let_def split: option.splits)

lemma GetGroupHosts_cases:
  assumes "GetGroupHosts env brc g = Returns (res, brc')"
  shows "brc' = brc \<or>
    (\<exists>hosts. brc' = brc\<lparr>GroupHosts := (GroupHosts brc)(Itoa (sint g) \<mapsto> hosts)\<rparr> \<and>
       MajorityResponse (HashData env) (AlphaRPCs brc) (GroupHosts_query env g) =
         Returns (Some hosts))"
proof (cases "GroupHosts brc (Itoa (sint g))")
  case (Some cached)
  with assms show ?thesis by (simp add: GetGroupHosts_def)
next
  case None
  show ?thesis
  proof (cases "MajorityResponse (HashData env) (AlphaRPCs brc) (GroupHosts_query env g)")
    case Panic
    with None assms show ?thesis by (simp add: GetGroupHosts_def)
  next
    case (Returns r)
    with None assms show ?thesis by (cases r) (auto simp: GetGroupHosts_def)
  qed
qed

lemma GetGroupLeader_cases:
  assumes "GetGroupLeader env brc g = Returns (res, brc')"
  shows "brc' = brc \<or>
    (\<exists>leaderHost leader.
       brc' = brc\<lparr>GroupLeader := (GroupLeader brc)(Itoa (sint g) \<mapsto> leader)\<rparr> \<and>
       GetClusterRPC env (ServerAddr leaderHost) = Some leader \<and>
       MajorityResponse (HashData env) (AlphaRPCs brc) (GroupLeader_query env g) =
         Returns (Some leaderHost))"
proof (cases "GroupLeader brc (Itoa (sint g))")
  case (Some cached)
  with assms show ?thesis by (simp add: GetGroupLeader_def)
next
  case None
  show ?thesis
  proof (cases "MajorityResponse (HashData env) (AlphaRPCs brc) (GroupLeader_query env g)")
    case Panic
    with None assms show ?thesis by (simp add: GetGroupLeader_def)
  next
    case (Returns r)
    show ?thesis
    proof (cases r)
      case None' : None
      with Returns None assms show ?thesis by (simp add: GetGroupLeader_def)
    next
      case (Some leaderHost)
      show ?thesis
      proof (cases "GetClusterRPC env (ServerAddr leaderHost)")
        case None'' : None
        with Some Returns None assms show ?thesis by (simp add: GetGroupLeader_def)
      next
        case (Some leader)
        with \<open>r = Some leaderHost\<close> Returns None assms
        have "brc' = brc\<lparr>GroupLeader := (GroupLeader brc)(Itoa (sint g) \<mapsto> leader)\<rparr>"
          by (auto simp: GetGroupLeader_def)
        with Some \<open>r = Some leaderHost\<close> Returns show ?thesis by blast
      qed
    qed
  qed
qed

text \<open>
  Claim C3, as the code has it. A call of \<open>GetGroupHosts\<close> that returns leaves the
  client unchanged or
  stores, under the key of the group in the GroupHosts cache and nowhere else, a host
  list that the quorum query over the alpha clients accepted: a strict majority of the
  polled clients returned canonical bytes that are not empty and have the same hash
  under \<open>HashData\<close>, and the same bytes when the hash does not collide on the canonical
  forms returned. A
  call of \<open>GetGroupLeader\<close> that returns leaves the client unchanged or stores, under
  the key of the group in the GroupLeader cache and nowhere else, the RPC client that
  \<open>GetClusterRPC\<close> opened to the server address of a host accepted in the same way.
  When the quorum query yields no result, either function returns what the cache held
  and leaves the client, so the cache entry, unchanged.
\<close>

theorem client_caches_hold_quorum_values:
  "(\<forall>res brc'. GetGroupHosts env brc g = Returns (res, brc') \<longrightarrow>
      brc' = brc \<or>
      (\<exists>hosts. brc' = brc\<lparr>GroupHosts := (GroupHosts brc)(Itoa (sint g) \<mapsto> hosts)\<rparr>
         \<and> accepted_by_quorum (HashData env) (AlphaRPCs brc) (GroupHosts_query env g) hosts
         \<and> (inj_on (HashData env)
               (set (canonical_forms (AlphaRPCs brc) (GroupHosts_query env g))) \<longrightarrow>
             accepted_identical (AlphaRPCs brc) (GroupHosts_query env g) hosts)))
   \<and> (\<forall>res brc'. GetGroupLeader env brc g = Returns (res, brc') \<longrightarrow>
      brc' = brc \<or>
      (\<exists>leaderHost leader.
         brc' = brc\<lparr>GroupLeader := (GroupLeader brc)(Itoa (sint g) \<mapsto> leader)\<rparr>
         \<and> GetClusterRPC env (ServerAddr leaderHost) = Some leader
         \<and> accepted_by_quorum (HashData env) (AlphaRPCs brc) (GroupLeader_query env g)
              leaderHost
         \<and> (inj_on (HashData env)
               (set (canonical_forms (AlphaRPCs brc) (GroupLeader_query env g))) \<longrightarrow>
             accepted_identical (AlphaRPCs brc) (GroupLeader_query env g) leaderHost)))
   \<and> (MajorityResponse (HashData env) (AlphaRPCs brc) (GroupHosts_query env g) =
         Returns None \<longrightarrow>
       GetGroupHosts env brc g = Returns (GroupHosts brc (Itoa (sint g)), brc))
   \<and> (MajorityResponse (HashData env) (AlphaRPCs brc) (GroupLeader_query env g) =
         Returns None \<longrightarrow>
       GetGroupLeader env brc g = Returns (GroupLeader brc (Itoa (sint g)), brc))"
proof (intro conjI allI impI)
  fix res brc'
  assume "GetGroupHosts env brc g = Returns (res, brc')"
  from GetGroupHosts_cases [OF this]
  show "brc' = brc \<or>
      (\<exists>hosts. brc' = brc\<lparr>GroupHosts := (GroupHosts brc)(Itoa (sint g) \<mapsto> hosts)\<rparr>
         \<and> accepted_by_quorum (HashData env) (AlphaRPCs brc) (GroupHosts_query env g) hosts
         \<and> (inj_on (HashData env)
               (set (canonical_forms (AlphaRPCs brc) (GroupHosts_query env g))) \<longrightarrow>
             accepted_identical (AlphaRPCs brc) (GroupHosts_query env g) hosts))"
  proof
    assume "brc' = brc"
    then show ?thesis by (rule disjI1)
  next
    assume "\<exists>hosts. brc' = brc\<lparr>GroupHosts := (GroupHosts brc)(Itoa (sint g) \<mapsto> hosts)\<rparr> \<and>
       MajorityResponse (HashData env) (AlphaRPCs brc) (GroupHosts_query env g) =
         Returns (Some hosts)"
    then obtain hosts where
      upd: "brc' = brc\<lparr>GroupHosts := (GroupHosts brc)(Itoa (sint g) \<mapsto> hosts)\<rparr>" and
      m: "MajorityResponse (HashData env) (AlphaRPCs brc) (GroupHosts_query env g) =
         Returns (Some hosts)"
      by blast
    note a = MajorityResponse_accepted [OF m]
    have "inj_on (HashData env)
        (set (canonical_forms (AlphaRPCs brc) (GroupHosts_query env g))) \<longrightarrow>
      accepted_identical (AlphaRPCs brc) (GroupHosts_query env g) hosts"
      using accepted_identical_of_quorum [OF a] by (rule impI)
    with upd a show ?thesis by (intro disjI2 exI [of _ hosts] conjI)
  qed
next
  fix res brc'
  assume "GetGroupLeader env brc g = Returns (res, brc')"
  from GetGroupLeader_cases [OF this]
  show "brc' = brc \<or>
      (\<exists>leaderHost leader.
         brc' = brc\<lparr>GroupLeader := (GroupLeader brc)(Itoa (sint g) \<mapsto> leader)\<rparr>
         \<and> GetClusterRPC env (ServerAddr leaderHost) = Some leader
         \<and> accepted_by_quorum (HashData env) (AlphaRPCs brc) (GroupLeader_query env g)
              leaderHost
         \<and> (inj_on (HashData env)
               (set (canonical_forms (AlphaRPCs brc) (GroupLeader_query env g))) \<longrightarrow>
             accepted_identical (AlphaRPCs brc) (GroupLeader_query env g) leaderHost))"
  proof
    assume "brc' = brc"
    then show ?thesis by (rule disjI1)
  next
    assume "\<exists>leaderHost leader.
       brc' = brc\<lparr>GroupLeader := (GroupLeader brc)(Itoa (sint g) \<mapsto> leader)\<rparr> \<and>
       GetClusterRPC env (ServerAddr leaderHost) = Some leader \<and>
       MajorityResponse (HashData env) (AlphaRPCs brc) (GroupLeader_query env g) =
         Returns (Some leaderHost)"
    then obtain leaderHost leader where
      upd: "brc' = brc\<lparr>GroupLeader := (GroupLeader brc)(Itoa (sint g) \<mapsto> leader)\<rparr>" and
      rpc: "GetClusterRPC env (ServerAddr leaderHost) = Some leader" and
      m: "MajorityResponse (HashData env) (AlphaRPCs brc) (GroupLeader_query env g) =
         Returns (Some leaderHost)"
      by blast
    note a = MajorityResponse_accepted [OF m]
    have "inj_on (HashData env)
        (set (canonical_forms (AlphaRPCs brc) (GroupLeader_query env g))) \<longrightarrow>
      accepted_identical (AlphaRPCs brc) (GroupLeader_query env g) leaderHost"
      using accepted_identical_of_quorum [OF a] by (rule impI)
    with upd rpc a show ?thesis
      by (intro disjI2 exI [of _ leaderHost] exI [of _ leader] conjI)
  qed
next
  assume "MajorityResponse (HashData env) (AlphaRPCs brc) (GroupHosts_query env g) =
    Returns None"
  then show "GetGroupHosts env brc g = Returns (GroupHosts brc (Itoa (sint g)), brc)"
    by (rule GetGroupHosts_no_quorum)
next
  assume "MajorityResponse (HashData env) (AlphaRPCs brc) (GroupLeader_query env g) =
    Returns None"
  then show "GetGroupLeader env brc g = Returns (GroupLeader brc (Itoa (sint g)), brc)"
    by (rule GetGroupLeader_no_quorum)
qed

lemma example_hosts_query_7:
  "GroupHosts_query example_client_env 7 c =
      Returns (Some example_hosts, map of_char ''h1h2h3h4'')"
  by (simp add: GroupHosts_query_def example_client_env_def example_hosts_def
      example_host_def)

lemma example_hosts_query_8:
  "GroupHosts_query example_client_env 8 c = Returns (None, [])"
  by (simp add: GroupHosts_query_def example_client_env_def)

text \<open>
  On the example network both alpha clients agree on the hosts and the leader of
  group 7, which are cached; they fail the host query of group 8 and the leader query of
  group 9, which leaves the client unchanged.
\<close>

theorem client_caches_hold_quorum_values_witness:
  "GetGroupHosts example_client_env example_client 7 =
     Returns (Some example_hosts, example_client\<lparr>GroupHosts := [''7'' \<mapsto> example_hosts]\<rparr>)
   \<and> accepted_identical (AlphaRPCs example_client) (GroupHosts_query example_client_env 7)
       example_hosts
   \<and> GetGroupLeader example_client_env example_client 7 =
       Returns (Some (RPCClient ''h1''), example_client_leader ''7'')
   \<and> accepted_identical (AlphaRPCs example_client) (GroupLeader_query example_client_env 7)
       (example_host 1 ''h1'')
   \<and> MajorityResponse (HashData example_client_env) (AlphaRPCs example_client)
       (GroupHosts_query example_client_env 8) = Returns None
   \<and> GetGroupHosts example_client_env example_client 8 = Returns (None, example_client)
   \<and> MajorityResponse (HashData example_client_env) (AlphaRPCs example_client)
       (GroupLeader_query example_client_env 9) = Returns None
   \<and> GetGroupLeader example_client_env example_client 9 = Returns (None, example_client)"
proof -
  note inst = client_caches_hold_quorum_values [of example_client_env example_client]
  have h7: "GetGroupHosts example_client_env example_client 7 =
     Returns (Some example_hosts, example_client\<lparr>GroupHosts := [''7'' \<mapsto> example_hosts]\<rparr>)"
    using example_GetGroupHosts_7 [of example_client] by (simp add: example_client_def)
  have forms_h: "canonical_forms (AlphaRPCs example_client)
      (GroupHosts_query example_client_env 7) =
      [map of_char ''h1h2h3h4'', map of_char ''h1h2h3h4'']"
    by (simp add: canonical_forms_def example_alpha example_hosts_query_7)
  have inj_h: "inj_on (HashData example_client_env)
      (set (canonical_forms (AlphaRPCs example_client) (GroupHosts_query example_client_env 7)))"
    unfolding forms_h by simp
  have changed: "example_client\<lparr>GroupHosts := [''7'' \<mapsto> example_hosts]\<rparr> \<noteq> example_client"
  proof
    assume "example_client\<lparr>GroupHosts := [''7'' \<mapsto> example_hosts]\<rparr> = example_client"
    then have "GroupHosts (example_client\<lparr>GroupHosts := [''7'' \<mapsto> example_hosts]\<rparr>) ''7'' =
        GroupHosts example_client ''7''" by simp
    then show False by (simp add: example_client_def)
  qed
  from inst [of 7] h7 changed obtain hosts where
    u: "example_client\<lparr>GroupHosts := [''7'' \<mapsto> example_hosts]\<rparr> =
        example_client\<lparr>GroupHosts := (GroupHosts example_client)(Itoa (sint (7::u64)) \<mapsto> hosts)\<rparr>"
    and a: "inj_on (HashData example_client_env)
      (set (canonical_forms (AlphaRPCs example_client) (GroupHosts_query example_client_env 7)))
      \<longrightarrow> accepted_identical (AlphaRPCs example_client)
        (GroupHosts_query example_client_env 7) hosts"
    by blast
  from u have "GroupHosts (example_client\<lparr>GroupHosts := [''7'' \<mapsto> example_hosts]\<rparr>) ''7'' =
      GroupHosts (example_client\<lparr>GroupHosts :=
        (GroupHosts example_client)(Itoa (sint (7::u64)) \<mapsto> hosts)\<rparr>) ''7''"
    by simp
  then have "hosts = example_hosts" by (simp add: example_keys)
  with a inj_h have acc_h: "accepted_identical (AlphaRPCs example_client)
      (GroupHosts_query example_client_env 7) example_hosts"
    by simp
  have forms_l: "canonical_forms (AlphaRPCs example_client)
      (GroupLeader_query example_client_env 7) = [map of_char ''h1'', map of_char ''h1'']"
    by (simp add: canonical_forms_def example_alpha example_leader_query)
  have inj_l: "inj_on (HashData example_client_env)
      (set (canonical_forms (AlphaRPCs example_client) (GroupLeader_query example_client_env 7)))"
    unfolding forms_l by simp
  have changed_l: "example_client_leader ''7'' \<noteq> example_client"
  proof
    assume "example_client_leader ''7'' = example_client"
    then have "GroupLeader (example_client_leader ''7'') ''7'' = GroupLeader example_client ''7''"
      by simp
    then show False by (simp add: example_client_leader_def example_client_def)
  qed
  from inst [of 7] example_leader_7 changed_l obtain leaderHost where
    al: "inj_on (HashData example_client_env)
      (set (canonical_forms (AlphaRPCs example_client) (GroupLeader_query example_client_env 7)))
      \<longrightarrow> accepted_identical (AlphaRPCs example_client)
        (GroupLeader_query example_client_env 7) leaderHost"
    by blast
  with inj_l have "accepted_identical (AlphaRPCs example_client)
      (GroupLeader_query example_client_env 7) leaderHost" by simp
  moreover from this have "leaderHost = example_host 1 ''h1''"
    by (auto simp: accepted_identical_def example_alpha example_leader_query)
  ultimately have acc_l: "accepted_identical (AlphaRPCs example_client)
      (GroupLeader_query example_client_env 7) (example_host 1 ''h1'')" by simp
  have m8: "MajorityResponse (HashData example_client_env) (AlphaRPCs example_client)
       (GroupHosts_query example_client_env 8) = Returns None"
    unfolding example_alpha by (rule majority_all_abstain) (simp_all add: example_hosts_query_8)
  with inst [of 8] have h8: "GetGroupHosts example_client_env example_client 8 =
      Returns (None, example_client)"
    by (simp add: example_keys example_client_def)
  have q9: "GroupLeader_query example_client_env 9 c = Returns (None, [])" for c
    by (simp add: GroupLeader_query_def example_client_env_def)
  have m9: "MajorityResponse (HashData example_client_env) (AlphaRPCs example_client)
       (GroupLeader_query example_client_env 9) = Returns None"
    unfolding example_alpha by (rule majority_all_abstain) (simp_all add: q9)
  have k9: "Itoa 9 = ''9''" by (simp add: Itoa_def dec.simps)
  from m9 inst [of 9] have l9: "GetGroupLeader example_client_env example_client 9 =
      Returns (None, example_client)"
    by (simp add: k9 example_client_def)
  from h7 acc_h example_leader_7 acc_l m8 h8 m9 l9 show ?thesis by simp
qed

text \<open>
  Claim C3 as stated has every cached value backed by a strict majority of byte-identical
  canonical forms. With a hash that collides on the two forms \<open>h1h2\<close> and \<open>h2h1\<close>
  that the two alpha clients return, \<open>GetGroupHosts\<close> caches the host list of the first
  client, whose canonical form one client of two returned.
\<close>

theorem client_caches_byte_identical_counterexample:
  "GroupHosts_query example_client_env_colliding 7 (RPCClient ''alpha1'') =
     Returns (Some example_hosts_a, map of_char ''h1h2'')
   \<and> GroupHosts_query example_client_env_colliding 7 (RPCClient ''alpha2'') =
       Returns (Some example_hosts_b, map of_char ''h2h1'')
   \<and> HashData example_client_env_colliding (map of_char ''h1h2'') =
       HashData example_client_env_colliding (map of_char ''h2h1'')
   \<and> GetGroupHosts example_client_env_colliding example_client 7 =
       Returns (Some example_hosts_a, example_client\<lparr>GroupHosts := [''7'' \<mapsto> example_hosts_a]\<rparr>)
   \<and> length (AlphaRPCs example_client) = 2
   \<and> length (identical (AlphaRPCs example_client)
         (GroupHosts_query example_client_env_colliding 7) (map of_char ''h1h2'')) = 1
   \<and> \<not> accepted_identical (AlphaRPCs example_client)
         (GroupHosts_query example_client_env_colliding 7) example_hosts_a"
proof -
  have q1: "GroupHosts_query example_client_env_colliding 7 (RPCClient ''alpha1'') =
     Returns (Some example_hosts_a, map of_char ''h1h2'')"
    by (simp add: GroupHosts_query_def example_client_env_colliding_def example_client_env_def
        example_hosts_a_def example_host_def)
  have q2: "GroupHosts_query example_client_env_colliding 7 (RPCClient ''alpha2'') =
       Returns (Some example_hosts_b, map of_char ''h2h1'')"
    by (simp add: GroupHosts_query_def example_client_env_colliding_def example_client_env_def
        example_hosts_b_def example_host_def)
  have H: "HashData example_client_env_colliding = colliding_HashData"
    by (simp add: example_client_env_colliding_def)
  have coll: "colliding_HashData (map of_char ''h1h2'') =
      colliding_HashData (map of_char ''h2h1'')"
    by (simp add: colliding_HashData_def)
  have ne: "(map of_char ''h1h2'' :: bytes) \<noteq> map of_char ''h2h1''"
    by simp
  have ab: "example_hosts_b \<noteq> example_hosts_a"
    by (simp add: example_hosts_a_def example_hosts_b_def example_host_def)
  have m: "MajorityResponse (HashData example_client_env_colliding) (AlphaRPCs example_client)
      (GroupHosts_query example_client_env_colliding 7) = Returns (Some example_hosts_a)"
    using coll by (simp add: example_alpha MajorityResponse_def q1 q2 majority_value_def
        tally_def H)
  have g: "GetGroupHosts example_client_env_colliding example_client 7 =
       Returns (Some example_hosts_a, example_client\<lparr>GroupHosts := [''7'' \<mapsto> example_hosts_a]\<rparr>)"
    using m by (simp add: GetGroupHosts_def example_keys example_client_def)
  have i: "length (identical (AlphaRPCs example_client)
         (GroupHosts_query example_client_env_colliding 7) (map of_char ''h1h2'')) = 1"
    using ne by (simp add: identical_def example_alpha q1 q2)
  have n: "\<not> accepted_identical (AlphaRPCs example_client)
         (GroupHosts_query example_client_env_colliding 7) example_hosts_a"
    using ne ab by (simp add: accepted_identical_def identical_def example_alpha q1 q2)
  from q1 q2 coll g i n show ?thesis by (simp add: H example_alpha)
qed

section \<open>Group existence (claim C5)\<close>

lemma GroupExists_no_quorum:
  "MajorityResponse (HashData env) (AlphaRPCs brc) (GroupExists_query env g) = Returns None \<Longrightarrow>
   GroupExists env brc g = Panic"
  by (simp add: GroupExists_def)

lemma example_bit_hashes_differ: "example_HashData [1] \<noteq> example_HashData [0]"
  by (simp add: example_HashData_def)

text \<open>
  Claim C5 says that \<open>GroupExists\<close> returns a boolean without panicking also when the
  quorum query finds no strict majority. With two alpha clients of which one knows group
  9 and the other does not, the query yields nil and \<open>GroupExists\<close> panics on the type
  assertion; so it does with no alpha client at all.
\<close>

theorem GroupExists_panics_without_quorum:
  "MajorityResponse (HashData example_client_env) (AlphaRPCs example_client)
     (GroupExists_query example_client_env 9) = Returns None
   \<and> GroupExists example_client_env example_client 9 = Panic
   \<and> GroupExists example_client_env (example_client\<lparr>AlphaRPCs := []\<rparr>) 9 = Panic"
proof -
  have q: "GroupExists_query example_client_env 9 (RPCClient ''alpha1'') =
        Returns (Some True, [1])"
      "GroupExists_query example_client_env 9 (RPCClient ''alpha2'') =
        Returns (Some False, [0])"
    by (simp_all add: GroupExists_query_def example_client_env_def)
  have H: "HashData example_client_env = example_HashData"
    by (simp add: example_client_env_def)
  have m: "MajorityResponse (HashData example_client_env) (AlphaRPCs example_client)
     (GroupExists_query example_client_env 9) = Returns None"
    using example_bit_hashes_differ
    by (simp add: example_alpha MajorityResponse_def q majority_value_def tally_def H)
  have e: "GroupExists example_client_env (example_client\<lparr>AlphaRPCs := []\<rparr>) 9 = Panic"
    by (simp add: GroupExists_def MajorityResponse_def majority_value_def)
  from m GroupExists_no_quorum [OF m] e show ?thesis by simp
qed

section \<open>Alpha nodes (claim C9)\<close>

lemma bootstrapServers_Nil: "bootstrapServers env [] = []"
  by (simp add: bootstrapServers_def List.map_filter_simps)

lemma bootstrapServers_Cons:
  "bootstrapServers env (addr # servers) =
     (case GetClusterRPC env addr of
        None \<Rightarrow> bootstrapServers env servers
      | Some c \<Rightarrow> c # bootstrapServers env servers)"
  by (cases "GetClusterRPC env addr") (simp_all add: bootstrapServers_def List.map_filter_simps)

lemma bootstrapServers_connected:
  "bootstrapServers env (filter (\<lambda>addr. GetClusterRPC env addr \<noteq> None) servers) =
   bootstrapServers env servers"
  by (induction servers)
     (auto simp: bootstrapServers_Nil bootstrapServers_Cons split: option.splits)

lemma set_bootstrapServers:
  "set (bootstrapServers env servers) =
     {c. \<exists>addr\<in>set servers. GetClusterRPC env addr = Some c}"
  by (induction servers)
     (auto simp: bootstrapServers_Nil bootstrapServers_Cons split: option.splits)

lemma length_bootstrapServers:
  "length (bootstrapServers env servers) =
     length (filter (\<lambda>addr. GetClusterRPC env addr \<noteq> None) servers)"
  by (induction servers)
     (auto simp: bootstrapServers_Nil bootstrapServers_Cons split: option.splits)

lemma AlphaNodes_Some:
  assumes "AlphaNodes env servers = Returns (Some nodes)"
  shows "\<exists>resp. Nodes resp = nodes \<and>
    MajorityResponse (HashData env) (bootstrapServers env servers) (AlphaNodes_query env) =
      Returns (Some (Some resp))"
proof (cases "MajorityResponse (HashData env) (bootstrapServers env servers)
    (AlphaNodes_query env)")
  case Panic
  with assms show ?thesis by (simp add: AlphaNodes_def)
next
  case (Returns res)
  show ?thesis
  proof (cases res)
    case None
    with Returns assms show ?thesis by (simp add: AlphaNodes_def)
  next
    case (Some ptr)
    with Returns assms show ?thesis by (cases ptr) (auto simp: AlphaNodes_def)
  qed
qed

lemma AlphaNodes_query_failed:
  assumes "rpc_GroupHosts env c (ALPHA_GROUP env) = None"
  shows "AlphaNodes_query env c = Returns (Some None, [])"
    and "c \<notin> set (supporters H clients (AlphaNodes_query env) b)"
  using assms by (simp_all add: AlphaNodes_query_def supporters_def)

text \<open>
  Claim C9. The clients that \<open>AlphaNodes\<close> hands to the quorum query are exactly the
  RPC clients of the bootstrap addresses for which \<open>GetClusterRPC\<close> succeeded; the
  addresses for which it failed are dropped, and the result is the same as on the list
  without them. A host list is returned only if it was accepted by a strict majority of
  these connected clients, so the threshold is half their number, not half the length
  of the bootstrap list. A connected client whose \<open>GroupHosts\<close> call fails returns
  empty canonical bytes and supports no value.
\<close>

theorem AlphaNodes_quorum_over_connected:
  "set (bootstrapServers env servers) =
     {c. \<exists>addr\<in>set servers. GetClusterRPC env addr = Some c}
   \<and> length (bootstrapServers env servers) =
       length (filter (\<lambda>addr. GetClusterRPC env addr \<noteq> None) servers)
   \<and> AlphaNodes env (filter (\<lambda>addr. GetClusterRPC env addr \<noteq> None) servers) =
       AlphaNodes env servers
   \<and> (\<forall>nodes. AlphaNodes env servers = Returns (Some nodes) \<longrightarrow>
        (\<exists>resp. Nodes resp = nodes \<and>
           accepted_by_quorum (HashData env) (bootstrapServers env servers)
             (AlphaNodes_query env) (Some resp)))
   \<and> (\<forall>c b. rpc_GroupHosts env c (ALPHA_GROUP env) = None \<longrightarrow>
        AlphaNodes_query env c = Returns (Some None, []) \<and>
        c \<notin> set (supporters (HashData env) (bootstrapServers env servers)
                 (AlphaNodes_query env) b))"
proof (intro conjI allI impI)
  show "set (bootstrapServers env servers) =
     {c. \<exists>addr\<in>set servers. GetClusterRPC env addr = Some c}"
    by (rule set_bootstrapServers)
  show "length (bootstrapServers env servers) =
       length (filter (\<lambda>addr. GetClusterRPC env addr \<noteq> None) servers)"
    by (rule length_bootstrapServers)
  show "AlphaNodes env (filter (\<lambda>addr. GetClusterRPC env addr \<noteq> None) servers) =
       AlphaNodes env servers"
    unfolding AlphaNodes_def bootstrapServers_connected by (rule refl)
next
  fix nodes assume "AlphaNodes env servers = Returns (Some nodes)"
  from AlphaNodes_Some [OF this] obtain resp where
    r: "Nodes resp = nodes" and
    m: "MajorityResponse (HashData env) (bootstrapServers env servers) (AlphaNodes_query env) =
      Returns (Some (Some resp))"
    by blast
  from r MajorityResponse_accepted [OF m]
  show "\<exists>resp. Nodes resp = nodes \<and>
           accepted_by_quorum (HashData env) (bootstrapServers env servers)
             (AlphaNodes_query env) (Some resp)"
    by blast
next
  fix c b assume f: "rpc_GroupHosts env c (ALPHA_GROUP env) = None"
  show "AlphaNodes_query env c = Returns (Some None, [])"
    by (rule AlphaNodes_query_failed(1) [OF f])
  show "c \<notin> set (supporters (HashData env) (bootstrapServers env servers)
                 (AlphaNodes_query env) b)"
    by (rule AlphaNodes_query_failed(2) [OF f])
qed

lemma example_bootstrapServers:
  "bootstrapServers example_client_env example_bootstraps =
     [RPCClient ''alpha1'', RPCClient ''alpha3'', RPCClient ''alpha2'']"
  by (simp add: example_bootstraps_def bootstrapServers_Nil bootstrapServers_Cons
      example_client_env_def)

lemma example_alpha_query:
  "AlphaNodes_query example_client_env (RPCClient ''alpha1'') =
     Returns (Some (Some example_alpha_response), map of_char ''h1h2h3h4'')"
  "AlphaNodes_query example_client_env (RPCClient ''alpha2'') =
     Returns (Some (Some example_alpha_response), map of_char ''h1h2h3h4'')"
  "AlphaNodes_query example_client_env (RPCClient ''alpha3'') = Returns (Some None, [])"
  by (simp_all add: AlphaNodes_query_def example_client_env_def example_alpha_response_def
      example_hosts_def example_host_def)

lemma example_AlphaNodes:
  "AlphaNodes example_client_env example_bootstraps = Returns (Some example_hosts)"
  by (simp add: AlphaNodes_def example_bootstrapServers MajorityResponse_def
      example_alpha_query majority_value_def tally_def example_alpha_response_def)

text \<open>
  Of four bootstrap addresses three connect, one of the three fails the call and two
  agree: two is a strict majority of three, not of four, and the host list is returned.
\<close>

theorem AlphaNodes_quorum_over_connected_witness:
  "length example_bootstraps = 4
   \<and> bootstrapServers example_client_env example_bootstraps =
       [RPCClient ''alpha1'', RPCClient ''alpha3'', RPCClient ''alpha2'']
   \<and> AlphaNodes example_client_env example_bootstraps = Returns (Some example_hosts)
   \<and> rpc_GroupHosts example_client_env (RPCClient ''alpha3'')
       (ALPHA_GROUP example_client_env) = None
   \<and> AlphaNodes_query example_client_env (RPCClient ''alpha3'') = Returns (Some None, [])
   \<and> length (supporters (HashData example_client_env)
       (bootstrapServers example_client_env example_bootstraps)
       (AlphaNodes_query example_client_env) (map of_char ''h1h2h3h4'')) = 2
   \<and> accepted_by_quorum (HashData example_client_env)
       (bootstrapServers example_client_env example_bootstraps)
       (AlphaNodes_query example_client_env) (Some example_alpha_response)"
proof -
  note inst = AlphaNodes_quorum_over_connected [of example_client_env example_bootstraps]
  have f: "rpc_GroupHosts example_client_env (RPCClient ''alpha3'')
       (ALPHA_GROUP example_client_env) = None"
    by (simp add: example_client_env_def)
  with inst have q: "AlphaNodes_query example_client_env (RPCClient ''alpha3'') =
      Returns (Some None, [])"
    by blast
  from inst example_AlphaNodes obtain resp where
    r: "Nodes resp = example_hosts" and
    a: "accepted_by_quorum (HashData example_client_env)
       (bootstrapServers example_client_env example_bootstraps)
       (AlphaNodes_query example_client_env) (Some resp)"
    by blast
  from a have "resp = example_alpha_response"
    by (auto simp: accepted_by_quorum_def example_bootstrapServers example_alpha_query)
  with a have acc: "accepted_by_quorum (HashData example_client_env)
       (bootstrapServers example_client_env example_bootstraps)
       (AlphaNodes_query example_client_env) (Some example_alpha_response)"
    by simp
  have n: "length (supporters (HashData example_client_env)
       (bootstrapServers example_client_env example_bootstraps)
       (AlphaNodes_query example_client_env) (map of_char ''h1h2h3h4'')) = 2"
    by (simp add: supporters_def example_bootstrapServers example_alpha_query)
  have l: "length example_bootstraps = 4" by (simp add: example_bootstraps_def)
  from l example_bootstrapServers example_AlphaNodes f q n acc show ?thesis by simp
qed

end
